theory Spec2Isabelle
  imports Main
begin

section \<open>JavaScript strings and numbers\<close>

text \<open>
  A JavaScript string is modelled as a \<^typ>\<open>string\<close>: a list of characters, one
  \<^typ>\<open>char\<close> per code unit, with the code units 0..255. A Number that holds an
  integer is an \<^typ>\<open>int\<close>, and \<open>NaN\<close> is \<open>None\<close> of \<^typ>\<open>int option\<close>; the
  handlers compare the numbers they parse with small constants only, so the rounding
  of very long digit strings to a double is not modelled.
\<close>

definition is_digit :: "char \<Rightarrow> bool" where
  \<comment> \<open>the regular expression class \<open>\d\<close>: the ASCII digits 0..9\<close>
  "is_digit c = (48 \<le> (of_char c :: nat) \<and> (of_char c :: nat) \<le> 57)"

definition strip_non_digits :: "string \<Rightarrow> string" where
  \<comment> \<open>\<open>value.replace(/\D/g, '')\<close>\<close>
  "strip_non_digits value = filter is_digit value"

definition slice :: "string \<Rightarrow> nat \<Rightarrow> nat \<Rightarrow> string" where
  \<comment> \<open>\<open>s.slice(a, b)\<close> for non-negative \<open>a\<close>, \<open>b\<close>: both are clamped to the length,
      and the result is empty when \<open>b \<le> a\<close>\<close>
  "slice s a b = take (b - a) (drop a s)"

definition slice_from :: "string \<Rightarrow> nat \<Rightarrow> string" where
  \<comment> \<open>\<open>s.slice(a)\<close>\<close>
  "slice_from s a = drop a s"

definition digit_val :: "char \<Rightarrow> nat" where
  "digit_val c = of_char c - 48"

definition digit_char :: "nat \<Rightarrow> char" where
  "digit_char n = char_of (48 + n)"

definition is_hex_digit :: "char \<Rightarrow> bool" where
  "is_hex_digit c =
     (is_digit c \<or> (65 \<le> (of_char c :: nat) \<and> (of_char c :: nat) \<le> 70)
                \<or> (97 \<le> (of_char c :: nat) \<and> (of_char c :: nat) \<le> 102))"

definition hex_val :: "char \<Rightarrow> nat" where
  "hex_val c =
     (if is_digit c then of_char c - 48
      else if (of_char c :: nat) \<le> 70 then of_char c - 55
      else of_char c - 87)"

definition is_white_space :: "char \<Rightarrow> bool" where
  \<comment> \<open>\<open>StrWhiteSpaceChar\<close> among the code units 0..255: TAB, LF, VT, FF, CR, SP, NBSP\<close>
  "is_white_space c =
     ((of_char c :: nat) = 9 \<or> (of_char c :: nat) = 10 \<or> (of_char c :: nat) = 11
      \<or> (of_char c :: nat) = 12 \<or> (of_char c :: nat) = 13 \<or> (of_char c :: nat) = 32
      \<or> (of_char c :: nat) = 160)"

definition radix_value :: "nat \<Rightarrow> (char \<Rightarrow> nat) \<Rightarrow> string \<Rightarrow> nat" where
  "radix_value R val Z = foldl (\<lambda>acc c. R * acc + val c) 0 Z"

definition parseInt :: "string \<Rightarrow> int option" where
  \<comment> \<open>\<open>parseInt(string)\<close> with no radix: leading white space is skipped, a sign is read,
      a prefix \<open>0x\<close> or \<open>0X\<close> selects radix 16, and the longest prefix of digits of the
      radix is the value; \<open>NaN\<close> when that prefix is empty\<close>
  "parseInt inputString =
     (let S = dropWhile is_white_space inputString;
          sign = (if S \<noteq> [] \<and> hd S = CHR ''-'' then - 1 else 1 :: int);
          S1 = (if S \<noteq> [] \<and> (hd S = CHR ''+'' \<or> hd S = CHR ''-'') then tl S else S)
      in if take 2 S1 = ''0x'' \<or> take 2 S1 = ''0X'' then
           (let Z = takeWhile is_hex_digit (drop 2 S1)
            in if Z = [] then None else Some (sign * int (radix_value 16 hex_val Z)))
         else
           (let Z = takeWhile is_digit S1
            in if Z = [] then None else Some (sign * int (radix_value 10 digit_val Z))))"

fun toString_nat :: "nat \<Rightarrow> string" where
  "toString_nat n =
     (if n < 10 then [digit_char n] else toString_nat (n div 10) @ [digit_char (n mod 10)])"

declare toString_nat.simps [simp del]

definition Number_toString :: "int option \<Rightarrow> string" where
  \<comment> \<open>\<open>ToString\<close> of a Number that is \<open>NaN\<close> or an integer (below \<open>10^21\<close> in size)\<close>
  "Number_toString x =
     (case x of
        None \<Rightarrow> ''NaN''
      | Some i \<Rightarrow> if i < 0 then ''-'' @ toString_nat (nat (- i)) else toString_nat (nat i))"

definition padStart :: "nat \<Rightarrow> char \<Rightarrow> string \<Rightarrow> string" where
  \<comment> \<open>\<open>s.padStart(n, c)\<close> for a one-character filler\<close>
  "padStart n c s = replicate (n - length s) c @ s"

definition pad :: "nat \<Rightarrow> nat \<Rightarrow> string" where
  \<comment> \<open>\<open>String(n).padStart(k, '0')\<close> for a natural number \<open>n\<close>\<close>
  "pad k n = padStart k CHR ''0'' (toString_nat n)"

function split :: "string \<Rightarrow> string \<Rightarrow> string list" where
  \<comment> \<open>\<open>s.split(sep)\<close>\<close>
  "split sep s =
     (if sep = [] then map (\<lambda>c. [c]) s
      else if s = [] then [[]]
      else if take (length sep) s = sep then [] # split sep (drop (length sep) s)
      else (case split sep (tl s) of w # ws \<Rightarrow> (hd s # w) # ws | [] \<Rightarrow> [[hd s]]))"
  by pat_completeness auto
termination
  by (relation "measure (\<lambda>(sep, s). length s)") auto

declare split.simps [simp del]

definition element :: "'a list \<Rightarrow> nat \<Rightarrow> 'a option" where
  \<comment> \<open>\<open>xs[i]\<close>: \<open>undefined\<close> (here \<open>None\<close>) beyond the end of the array\<close>
  "element xs i = (if i < length xs then Some (xs ! i) else None)"

definition ToString :: "string option \<Rightarrow> string" where
  \<comment> \<open>\<open>ToString\<close> of a string or \<open>undefined\<close>\<close>
  "ToString v = (case v of None \<Rightarrow> ''undefined'' | Some s \<Rightarrow> s)"

definition startsWith :: "string \<Rightarrow> string \<Rightarrow> bool" where
  "startsWith s p = (take (length p) s = p)"

section \<open>JavaScript dates\<close>

text \<open>
  Time values are milliseconds since the epoch, an \<^typ>\<open>int\<close>; an invalid date has the
  time value \<open>NaN\<close>, here \<open>None\<close>. The definitions follow the abstract operations of
  ECMA-262 (\<open>Day\<close>, \<open>DayFromYear\<close>, \<open>YearFromTime\<close>, \<open>MonthFromTime\<close>, \<open>DateFromTime\<close>,
  \<open>MakeDay\<close>, \<open>MakeTime\<close>, \<open>MakeDate\<close>, \<open>TimeClip\<close>, \<open>LocalTime\<close>, \<open>UTC\<close>).

  The time zone of the host is a parameter, the function \<open>LocalTZA\<close> of ECMA-262:
  \<open>tz t True\<close> is the offset of local time from UTC, in milliseconds, in force at the
  instant \<open>t\<close>, and \<open>tz t False\<close> is the offset with which the host reads the local time
  \<open>t\<close>. The two differ where the zone changes its offset: a local time that a change
  skips is read with the offset from before the change.
\<close>

definition msPerDay :: int where
  "msPerDay = 86400000"

definition Day :: "int \<Rightarrow> int" where
  "Day t = t div msPerDay"

definition DaysInYear :: "int \<Rightarrow> int" where
  "DaysInYear y =
     (if y mod 4 \<noteq> 0 then 365
      else if y mod 100 \<noteq> 0 then 366
      else if y mod 400 \<noteq> 0 then 365
      else 366)"

definition DayFromYear :: "int \<Rightarrow> int" where
  "DayFromYear y =
     365 * (y - 1970) + (y - 1969) div 4 - (y - 1901) div 100 + (y - 1601) div 400"

text \<open>
  \<open>YearFromTime t\<close> is the largest year \<open>y\<close> with \<open>DayFromYear y \<le> Day t\<close>. It is computed
  by a search upwards from a year that is not after it; the search ends because
  \<open>DayFromYear\<close> grows by \<open>DaysInYear\<close> from each year to the next.
\<close>

lemma div_succ:
  "0 < n \<Longrightarrow> ((a::int) + 1) div n = (if (a + 1) mod n = 0 then a div n + 1 else a div n)"
proof -
  assume n: "0 < n"
  have a: "a = n * (a div n) + a mod n" by simp
  have r: "0 \<le> a mod n" "a mod n < n" using n by simp_all
  show ?thesis
  proof (cases "a mod n = n - 1")
    case True
    then have "a + 1 = n * (a div n) + (n - 1) + 1" using a by simp
    then have "a + 1 = n * (a div n + 1) + 0" by (simp add: algebra_simps)
    then have "(a + 1) div n = a div n + 1" "(a + 1) mod n = 0"
      using n by (metis int_div_pos_eq order_refl, metis int_mod_pos_eq order_refl)
    then show ?thesis by simp
  next
    case False
    then have lt: "a mod n + 1 < n" using r by linarith
    have "a + 1 = n * (a div n) + (a mod n + 1)" using a by simp
    then have "(a + 1) div n = a div n" "(a + 1) mod n = a mod n + 1"
      using lt r by (metis int_div_pos_eq add_nonneg_nonneg zero_le_one,
          metis int_mod_pos_eq add_nonneg_nonneg zero_le_one)
    then show ?thesis using r by simp
  qed
qed

lemma mod_shift_4: "((y::int) - 1968) mod 4 = y mod 4"
proof -
  have "y - 1968 = y + (- 492) * 4" by simp
  then show ?thesis by (metis mod_mult_self1)
qed

lemma mod_shift_100: "((y::int) - 1900) mod 100 = y mod 100"
proof -
  have "y - 1900 = y + (- 19) * 100" by simp
  then show ?thesis by (metis mod_mult_self1)
qed

lemma mod_shift_400: "((y::int) - 1600) mod 400 = y mod 400"
proof -
  have "y - 1600 = y + (- 4) * 400" by simp
  then show ?thesis by (metis mod_mult_self1)
qed

lemma mod_400_100: "(y::int) mod 400 = 0 \<Longrightarrow> y mod 100 = 0"
proof -
  assume "y mod 400 = 0"
  then have "400 dvd y" by (simp add: mod_eq_0_iff_dvd)
  moreover have "(100::int) dvd 400" by simp
  ultimately have "100 dvd y" by (rule dvd_trans [rotated])
  then show ?thesis by (simp add: mod_eq_0_iff_dvd)
qed

lemma mod_100_4: "(y::int) mod 100 = 0 \<Longrightarrow> y mod 4 = 0"
proof -
  assume "y mod 100 = 0"
  then have "100 dvd y" by (simp add: mod_eq_0_iff_dvd)
  moreover have "(4::int) dvd 100" by simp
  ultimately have "4 dvd y" by (rule dvd_trans [rotated])
  then show ?thesis by (simp add: mod_eq_0_iff_dvd)
qed

lemma DayFromYear_Suc: "DayFromYear (y + 1) = DayFromYear y + DaysInYear y"
proof -
  have d4: "(y + 1 - 1969) div 4 =
      (if y mod 4 = 0 then (y - 1969) div 4 + 1 else (y - 1969) div 4)"
    using div_succ [of 4 "y - 1969"] mod_shift_4 [of y] by (simp add: algebra_simps)
  have d100: "(y + 1 - 1901) div 100 =
      (if y mod 100 = 0 then (y - 1901) div 100 + 1 else (y - 1901) div 100)"
    using div_succ [of 100 "y - 1901"] mod_shift_100 [of y] by (simp add: algebra_simps)
  have d400: "(y + 1 - 1601) div 400 =
      (if y mod 400 = 0 then (y - 1601) div 400 + 1 else (y - 1601) div 400)"
    using div_succ [of 400 "y - 1601"] mod_shift_400 [of y] by (simp add: algebra_simps)
  show ?thesis
    unfolding DayFromYear_def DaysInYear_def d4 d100 d400
    using mod_400_100 [of y] mod_100_4 [of y] by auto
qed

lemma DaysInYear_bounds: "365 \<le> DaysInYear y" "DaysInYear y \<le> 366"
  by (simp_all add: DaysInYear_def)

lemma DayFromYear_less: "DayFromYear y < DayFromYear (y + 1)"
  using DaysInYear_bounds(1) [of y] by (simp add: DayFromYear_Suc)

function year_search :: "int \<Rightarrow> int \<Rightarrow> int" where
  "year_search d y = (if DayFromYear (y + 1) \<le> d then year_search d (y + 1) else y)"
  by pat_completeness auto
termination
proof (relation "measure (\<lambda>(d, y). nat (d - DayFromYear (y + 1) + 1))")
  show "wf (measure (\<lambda>(d, y). nat (d - DayFromYear (y + 1) + 1)))"
    by simp
next
  fix d y :: int
  assume "DayFromYear (y + 1) \<le> d"
  then show "((d, y + 1), (d, y)) \<in> measure (\<lambda>(d, y). nat (d - DayFromYear (y + 1) + 1))"
    using DayFromYear_less [of "y + 1"] by simp
qed

declare year_search.simps [simp del]

definition YearFromDay :: "int \<Rightarrow> int" where
  "YearFromDay d = year_search d (1970 + (if 0 \<le> d then d div 366 else d div 365))"

definition YearFromTime :: "int \<Rightarrow> int" where
  "YearFromTime t = YearFromDay (Day t)"

definition InLeapYear :: "int \<Rightarrow> int" where
  "InLeapYear t = (if DaysInYear (YearFromTime t) = 366 then 1 else 0)"

definition DayWithinYear :: "int \<Rightarrow> int" where
  "DayWithinYear t = Day t - DayFromYear (YearFromTime t)"

definition MonthFromTime :: "int \<Rightarrow> int" where
  "MonthFromTime t =
     (let d = DayWithinYear t; L = InLeapYear t in
      if d < 31 then 0
      else if d < 59 + L then 1
      else if d < 90 + L then 2
      else if d < 120 + L then 3
      else if d < 151 + L then 4
      else if d < 181 + L then 5
      else if d < 212 + L then 6
      else if d < 243 + L then 7
      else if d < 273 + L then 8
      else if d < 304 + L then 9
      else if d < 334 + L then 10
      else 11)"

definition DateFromTime :: "int \<Rightarrow> int" where
  "DateFromTime t =
     (let d = DayWithinYear t; L = InLeapYear t; m = MonthFromTime t in
      if m = 0 then d + 1
      else if m = 1 then d - 30
      else if m = 2 then d - 58 - L
      else if m = 3 then d - 89 - L
      else if m = 4 then d - 119 - L
      else if m = 5 then d - 150 - L
      else if m = 6 then d - 180 - L
      else if m = 7 then d - 211 - L
      else if m = 8 then d - 242 - L
      else if m = 9 then d - 272 - L
      else if m = 10 then d - 303 - L
      else d - 333 - L)"

definition HourFromTime :: "int \<Rightarrow> int" where
  "HourFromTime t = (t div 3600000) mod 24"

definition MinFromTime :: "int \<Rightarrow> int" where
  "MinFromTime t = (t div 60000) mod 60"

definition SecFromTime :: "int \<Rightarrow> int" where
  "SecFromTime t = (t div 1000) mod 60"

definition msFromTime :: "int \<Rightarrow> int" where
  "msFromTime t = t mod 1000"

definition MakeTime :: "int \<Rightarrow> int \<Rightarrow> int \<Rightarrow> int \<Rightarrow> int" where
  "MakeTime hour minute sec ms = hour * 3600000 + minute * 60000 + sec * 1000 + ms"

definition DayOfYearOfMonth :: "int \<Rightarrow> int \<Rightarrow> int" where
  \<comment> \<open>the day within the year \<open>ym\<close> on which the month \<open>mn\<close> (0..11) begins\<close>
  "DayOfYearOfMonth ym mn =
     (let L = (if DaysInYear ym = 366 then 1 else 0) in
      if mn = 0 then 0
      else if mn = 1 then 31
      else if mn = 2 then 59 + L
      else if mn = 3 then 90 + L
      else if mn = 4 then 120 + L
      else if mn = 5 then 151 + L
      else if mn = 6 then 181 + L
      else if mn = 7 then 212 + L
      else if mn = 8 then 243 + L
      else if mn = 9 then 273 + L
      else if mn = 10 then 304 + L
      else 334 + L)"

definition MakeDay :: "int \<Rightarrow> int \<Rightarrow> int \<Rightarrow> int" where
  \<comment> \<open>the day number of the first day of month \<open>mn\<close> of year \<open>ym\<close>, plus \<open>date - 1\<close>: a
      date beyond the end of the month runs on into the following months\<close>
  "MakeDay year month date =
     (let ym = year + month div 12; mn = month mod 12
      in DayFromYear ym + DayOfYearOfMonth ym mn + date - 1)"

definition MakeDate :: "int \<Rightarrow> int \<Rightarrow> int" where
  "MakeDate day time = day * msPerDay + time"

definition TimeClip :: "int \<Rightarrow> int option" where
  "TimeClip time = (if \<bar>time\<bar> > 8640000000000000 then None else Some time)"

type_synonym time_zone = "int \<Rightarrow> bool \<Rightarrow> int"

definition LocalTime :: "time_zone \<Rightarrow> int \<Rightarrow> int" where
  "LocalTime tz t = t + tz t True"

definition UTC :: "time_zone \<Rightarrow> int \<Rightarrow> int" where
  "UTC tz t = t - tz t False"

definition fixed_zone :: "int \<Rightarrow> time_zone" where
  \<comment> \<open>a zone that keeps one offset, such as \<open>UTC\<close> or \<open>Etc/GMT+6\<close>\<close>
  "fixed_zone offset = (\<lambda>t isUTC. offset)"

definition Pacific_Apia :: time_zone where
  \<comment> \<open>\<open>Pacific/Apia\<close> at the end of 2011: ten hours behind UTC until the end of
      29 December, local time (30 December 10:00 UTC), fourteen hours ahead of it from
      then on, so that 31 December followed 29 December; a local time of the skipped
      30 December is read with the offset from before the change\<close>
  "Pacific_Apia t isUTC =
     (if isUTC then (if t < 1325239200000 then - 36000000 else 50400000)
      else (if t < 1325289600000 then - 36000000 else 50400000))"

definition DaysInMonth :: "int \<Rightarrow> int \<Rightarrow> int" where
  \<comment> \<open>the number of days of month \<open>m\<close> (1..12) of year \<open>y\<close>\<close>
  "DaysInMonth y m =
     (if m = 2 then (if DaysInYear y = 366 then 29 else 28)
      else if m = 4 \<or> m = 6 \<or> m = 9 \<or> m = 11 then 30
      else 31)"

definition America_Sao_Paulo :: time_zone where
  \<comment> \<open>\<open>America/Sao_Paulo\<close> in November 2018: three hours behind UTC until 4 November
      00:00 local time (03:00 UTC), when the clocks went to 01:00, two hours behind UTC
      from then on; a local time of the skipped hour is read with the offset from before
      the change\<close>
  "America_Sao_Paulo t isUTC =
     (if isUTC then (if t < 1541300400000 then - 10800000 else - 7200000)
      else (if t < 1541293200000 then - 10800000 else - 7200000))"

definition new_Date_components :: "time_zone \<Rightarrow> int \<Rightarrow> int \<Rightarrow> int \<Rightarrow> int option" where
  \<comment> \<open>\<open>new Date(year, month, date)\<close>: local midnight of that day\<close>
  "new_Date_components tz year month date =
     (let yr = (if 0 \<le> year \<and> year \<le> 99 then 1900 + year else year);
          finalDate = MakeDate (MakeDay yr month date) (MakeTime 0 0 0 0)
      in TimeClip (UTC tz finalDate))"

definition all_digits :: "string \<Rightarrow> bool" where
  "all_digits s = list_all is_digit s"

definition decimal :: "string \<Rightarrow> int" where
  "decimal s = int (radix_value 10 digit_val s)"

definition parse_ISO :: "string \<Rightarrow> int option" where
  \<comment> \<open>the date-time string format in its complete form \<open>YYYY-MM-DDTHH:mm:ss.sssZ\<close>, with
      every element in its legal range\<close>
  "parse_ISO s =
     (let YYYY = slice s 0 4; MM = slice s 5 7; DD = slice s 8 10; HH = slice s 11 13;
          mm = slice s 14 16; ss = slice s 17 19; sss = slice s 20 23
      in if length s = 24 \<and> slice s 4 5 = ''-'' \<and> slice s 7 8 = ''-''
            \<and> slice s 10 11 = ''T'' \<and> slice s 13 14 = '':'' \<and> slice s 16 17 = '':''
            \<and> slice s 19 20 = ''.'' \<and> slice s 23 24 = ''Z''
            \<and> all_digits YYYY \<and> all_digits MM \<and> all_digits DD \<and> all_digits HH
            \<and> all_digits mm \<and> all_digits ss \<and> all_digits sss
            \<and> 1 \<le> decimal MM \<and> decimal MM \<le> 12
            \<and> 1 \<le> decimal DD \<and> decimal DD \<le> DaysInMonth (decimal YYYY) (decimal MM)
            \<and> decimal HH \<le> 23 \<and> decimal mm \<le> 59 \<and> decimal ss \<le> 59
         then TimeClip (MakeDate (MakeDay (decimal YYYY) (decimal MM - 1) (decimal DD))
                          (MakeTime (decimal HH) (decimal mm) (decimal ss) (decimal sss)))
         else None)"

definition Date_parse :: "(string \<Rightarrow> int option) \<Rightarrow> string \<Rightarrow> int option" where
  \<comment> \<open>\<open>new Date(string)\<close>: a string in the complete date-time format is read as such; what
      any other string gives is left to the implementation, the parameter \<open>fallback\<close>\<close>
  "Date_parse fallback s = (if parse_ISO s \<noteq> None then parse_ISO s else fallback s)"

definition toISOString :: "int option \<Rightarrow> string option" where
  \<comment> \<open>\<open>date.toISOString()\<close>; it throws a RangeError, here \<open>None\<close>, on an invalid date\<close>
  "toISOString tv =
     (case tv of
        None \<Rightarrow> None
      | Some t \<Rightarrow>
          let y = YearFromTime t;
              year = (if 0 \<le> y \<and> y \<le> 9999 then padStart 4 CHR ''0'' (toString_nat (nat y))
                      else (if y < 0 then ''-'' else ''+'')
                           @ padStart 6 CHR ''0'' (toString_nat (nat \<bar>y\<bar>)))
          in Some (year @ ''-'' @ padStart 2 CHR ''0'' (toString_nat (nat (MonthFromTime t + 1)))
                   @ ''-'' @ padStart 2 CHR ''0'' (toString_nat (nat (DateFromTime t)))
                   @ ''T'' @ padStart 2 CHR ''0'' (toString_nat (nat (HourFromTime t)))
                   @ '':'' @ padStart 2 CHR ''0'' (toString_nat (nat (MinFromTime t)))
                   @ '':'' @ padStart 2 CHR ''0'' (toString_nat (nat (SecFromTime t)))
                   @ ''.'' @ padStart 3 CHR ''0'' (toString_nat (nat (msFromTime t)))
                   @ ''Z''))"

definition getMonth :: "time_zone \<Rightarrow> int option \<Rightarrow> int option" where
  "getMonth tz tv = map_option (\<lambda>t. MonthFromTime (LocalTime tz t)) tv"

definition getDate :: "time_zone \<Rightarrow> int option \<Rightarrow> int option" where
  "getDate tz tv = map_option (\<lambda>t. DateFromTime (LocalTime tz t)) tv"

definition getFullYear :: "time_zone \<Rightarrow> int option \<Rightarrow> int option" where
  "getFullYear tz tv = map_option (\<lambda>t. YearFromTime (LocalTime tz t)) tv"

section \<open>The patient form\<close>

definition formatPhoneNumber :: "string \<Rightarrow> string" where
  "formatPhoneNumber value =
     (let numbers = strip_non_digits value in
      if length numbers \<le> 3 then numbers
      else if length numbers \<le> 6 then
        ''('' @ slice numbers 0 3 @ '') '' @ slice_from numbers 3
      else
        ''('' @ slice numbers 0 3 @ '') '' @ slice numbers 3 6 @ ''-'' @ slice numbers 6 10)"

definition formatDate :: "(string \<Rightarrow> int option) \<Rightarrow> time_zone \<Rightarrow> string option \<Rightarrow> string" where
  "formatDate fallback tz dateString =
     (case dateString of
        None \<Rightarrow> []
      | Some s \<Rightarrow>
          if s = [] then []
          else
            let date = Date_parse fallback s;
                month = padStart 2 CHR ''0''
                          (Number_toString (map_option (\<lambda>m. m + 1) (getMonth tz date)));
                day = padStart 2 CHR ''0'' (Number_toString (getDate tz date));
                year = getFullYear tz date
            in month @ ''/'' @ day @ ''/'' @ Number_toString year)"

definition parseDate :: "time_zone \<Rightarrow> string \<Rightarrow> string option" where
  \<comment> \<open>\<open>null\<close> is \<open>None\<close>; the \<open>catch\<close> branch returns \<open>null\<close> as well\<close>
  "parseDate tz dateString =
     (if dateString = [] then None
      else
        let parts = split ''/'' dateString;
            monthNum = parseInt (ToString (element parts 0));
            dayNum = parseInt (ToString (element parts 1));
            yearNum = parseInt (ToString (element parts 2))
        in case (monthNum, dayNum, yearNum) of
             (Some m, Some d, Some y) \<Rightarrow>
               if m < 1 \<or> m > 12 then None
               else if d < 1 \<or> d > 31 then None
               else if y < 1900 \<or> y > 2100 then None
               else
                 (let date = new_Date_components tz y (m - 1) d
                  in if date = None then None else toISOString date)
           | _ \<Rightarrow> None)"

definition exceeds :: "int option \<Rightarrow> int \<Rightarrow> bool" where
  \<comment> \<open>\<open>x > n\<close> for a Number \<open>x\<close>: false when \<open>x\<close> is \<open>NaN\<close>\<close>
  "exceeds x n = (case x of None \<Rightarrow> False | Some i \<Rightarrow> i > n)"

definition formattedValue :: "string \<Rightarrow> string \<Rightarrow> string" where
  \<comment> \<open>the value \<open>handleChange\<close> stores for the field \<open>name\<close> when the input holds \<open>value\<close>\<close>
  "formattedValue name value =
     (let formatted =
            (if name = ''phone'' \<or> name = ''altNumber'' then formatPhoneNumber value else value)
      in if name = ''dateOfBirth'' \<or> name = ''doidol'' \<or> name = ''orderDate'' then
           (let numbers = slice (strip_non_digits value) 0 8 in
            if length numbers \<le> 2 then numbers
            else if length numbers \<le> 4 then
              (let month = slice numbers 0 2 in
               if exceeds (parseInt month) 12 then ''12/'' @ slice_from numbers 2
               else month @ ''/'' @ slice_from numbers 2)
            else
              (let month = slice numbers 0 2;
                   day = slice numbers 2 4;
                   year = slice numbers 4 8;
                   v1 = (if exceeds (parseInt month) 12 then ''12'' else month);
                   v2 = (if exceeds (parseInt day) 31 then v1 @ ''/31'' else v1 @ ''/'' @ day)
               in if year \<noteq> [] then v2 @ ''/'' @ year else v2))
         else formatted)"

definition handleChange :: "string \<Rightarrow> string \<Rightarrow> (string \<rightharpoonup> string) \<Rightarrow> (string \<rightharpoonup> string)" where
  \<comment> \<open>\<open>setFormData(prev => ({...prev, [name]: formattedValue}))\<close> on the string fields\<close>
  "handleChange name value prev = prev(name \<mapsto> formattedValue name value)"

section \<open>Requests, responses and storage\<close>

text \<open>
  A handler is a function from the request and the stored tables to a response and the
  tables afterwards. What the handlers take from their environment is a parameter
  (\<open>env\<close>): the verification of a token (\<open>jwtVerify\<close> with the server's secret), the
  password hash, the identifier the store gives a new row, what \<open>new Date\<close> makes of a
  string that is not in the date-time format, and a storage call that fails for a reason
  of its own (\<open>fault\<close>: a lost connection, a value the store refuses, a constraint
  violated by a concurrent request). The request carries the headers the handlers read,
  the user of its session and its parsed payload.

  Payloads are records of the fields the handlers read, typed as the interfaces of the
  source type them; an absent (or \<open>null\<close>) field is \<open>None\<close>. The tables hold the columns
  the handlers write and read.

  The client checks the data of a create call against the model of \<open>schema.prisma\<close>
  before anything is sent to the store: a key that is not a field of the model, or a
  field of the model that has neither \<open>?\<close> nor a default and is not given, makes the
  call throw a \<open>PrismaClientValidationError\<close>, an \<open>Error\<close> that is not a known request
  error. The models \<open>User\<close>, \<open>Attorney\<close> and \<open>CaseManager\<close>, which the attorneys route
  creates, are transcribed below, each field with whether a create call must give it.
\<close>

datatype thrown =
    PrismaClientKnownRequestError string string  \<comment> \<open>\<open>code\<close> and \<open>message\<close>\<close>
  | Error string  \<comment> \<open>any other \<open>Error\<close>, with its \<open>message\<close>\<close>
  | NonError  \<comment> \<open>a thrown value that is not an \<open>Error\<close>\<close>

datatype storage_call = FindUser | FindAttorney | Transaction | CreateTask

record user_row =
  u_id :: string
  u_email :: string
  u_name :: string
  u_password :: string
  u_role :: string

record attorney_row =
  a_id :: string
  a_userId :: string
  a_phone :: "string option"
  a_faxNumber :: "string option"
  a_address :: "string option"
  a_city :: "string option"
  a_state :: "string option"
  a_zipcode :: "string option"
  a_notes :: "string option"
  a_barNumber :: "string option"
  a_firm :: "string option"

record caseManager_row =
  cm_id :: string
  cm_attorneyId :: string
  cm_name :: string
  cm_email :: string
  cm_phone :: string
  cm_phoneExt :: "string option"
  cm_faxNumber :: "string option"

record task_row =
  t_id :: string
  t_title :: string
  t_description :: "string option"
  t_status :: "string option"
  t_priority :: "string option"
  t_dueDate :: "int option"  \<comment> \<open>a time value, or \<open>null\<close>\<close>
  t_assignedToId :: "string option"

record db =
  users :: "user_row list"
  attorneys :: "attorney_row list"
  caseManagers :: "caseManager_row list"
  tasks :: "task_row list"

record jwt_payload =
  jwt_role :: "string option"
  jwt_userId :: "string option"

record env =
  jwtVerify :: "string \<Rightarrow> thrown + jwt_payload"
  hash :: "string \<Rightarrow> string"
  newId :: "db \<Rightarrow> string"
  fault :: "storage_call \<Rightarrow> thrown option"
  parse_other_date :: "string \<Rightarrow> int option"

record 'p request =
  query_id :: "string option"  \<comment> \<open>\<open>searchParams.get('id')\<close>\<close>
  authorization :: "string option"  \<comment> \<open>the \<open>Authorization\<close> header\<close>
  cookie :: "string option"  \<comment> \<open>the \<open>cookie\<close> header\<close>
  session_user :: "string option"  \<comment> \<open>\<open>session?.user\<close> of \<open>getServerSession\<close>\<close>
  json_body :: "thrown + 'p"  \<comment> \<open>\<open>await request.json()\<close>: the payload, or what it throws\<close>

record user_summary =
  us_name :: string
  us_email :: string

record assignee =
  as_id :: string
  as_name :: string
  as_email :: string

datatype body =
    Message string  \<comment> \<open>\<open>{ message }\<close>\<close>
  | ErrorMessage string  \<comment> \<open>\<open>{ error }\<close>\<close>
  | AttorneyWithRelations attorney_row "user_summary option" "caseManager_row list"
  | AttorneyOnly attorney_row
  | TaskWithAssignee task_row "assignee option"

record response =
  status :: nat
  body :: body

definition NextResponse_json :: "body \<Rightarrow> nat \<Rightarrow> response" where
  "NextResponse_json b s = \<lparr>status = s, body = b\<rparr>"

definition truthy :: "string option \<Rightarrow> bool" where
  \<comment> \<open>a string, \<open>null\<close> or \<open>undefined\<close> as a condition: false when absent or empty\<close>
  "truthy v = (case v of None \<Rightarrow> False | Some s \<Rightarrow> s \<noteq> [])"

definition toUpperCase :: "string \<Rightarrow> string" where
  \<comment> \<open>on the ASCII letters. Its one use is the comparison of a role with \<open>ADMIN\<close>, which
      does not depend on the other code units: of the code units 0..255 no other one
      becomes \<open>A\<close>, \<open>D\<close>, \<open>M\<close>, \<open>I\<close> or \<open>N\<close> in upper case\<close>
  "toUpperCase s =
     map (\<lambda>c. if 97 \<le> (of_char c :: nat) \<and> (of_char c :: nat) \<le> 122
                then char_of ((of_char c :: nat) - 32) else c) s"

datatype 'a promise = Promise 'a

definition promise_property :: "'a promise \<Rightarrow> string \<Rightarrow> string option" where
  \<comment> \<open>a property read on a Promise that was not awaited: a Promise has no data property
      (in particular no \<open>role\<close>), so the read gives \<open>undefined\<close>\<close>
  "promise_property p name = None"

definition transaction ::
  "env \<Rightarrow> (db \<Rightarrow> thrown + 'a \<times> db) \<Rightarrow> db \<Rightarrow> (thrown + 'a) \<times> db" where
  \<comment> \<open>\<open>prisma.$transaction(f)\<close>: the writes of \<open>f\<close> are committed together when \<open>f\<close>
      returns, and none of them when anything throws\<close>
  "transaction e f d =
     (case fault e Transaction of
        Some err \<Rightarrow> (Inl err, d)
      | None \<Rightarrow> (case f d of Inl err \<Rightarrow> (Inl err, d) | Inr (r, d') \<Rightarrow> (Inr r, d')))"

definition user_findUnique_email :: "db \<Rightarrow> string \<Rightarrow> user_row option" where
  "user_findUnique_email d email = find (\<lambda>u. u_email u = email) (users d)"

definition user_findUnique_id :: "db \<Rightarrow> string \<Rightarrow> user_row option" where
  "user_findUnique_id d i = find (\<lambda>u. u_id u = i) (users d)"

definition attorney_findUnique :: "db \<Rightarrow> string \<Rightarrow> attorney_row option" where
  "attorney_findUnique d i = find (\<lambda>a. a_id a = i) (attorneys d)"

type_synonym model = "(string \<times> bool) list"

definition schema_User :: model where
  \<comment> \<open>\<open>model User\<close>: \<open>id\<close> has a default, the relations are optional in a create call\<close>
  "schema_User =
     [(''id'', False), (''createdAt'', True), (''email'', True), (''name'', True),
      (''password'', True), (''role'', True), (''updatedAt'', True),
      (''attorney'', False), (''assignedTasks'', False), (''events'', False)]"

definition schema_Attorney :: model where
  \<comment> \<open>\<open>model Attorney\<close>, the fields of its unchecked create input: \<open>id\<close> has a default,
      \<open>barNumber\<close> is \<open>Json?\<close>\<close>
  "schema_Attorney =
     [(''id'', False), (''address'', True), (''barNumber'', False), (''city'', True),
      (''createdAt'', True), (''email'', True), (''firstName'', True), (''lastName'', True),
      (''phone'', True), (''state'', True), (''updatedAt'', True), (''userId'', True),
      (''caseManagers'', False), (''zip'', True)]"

definition schema_CaseManager :: model where
  \<comment> \<open>\<open>model CaseManager\<close>, the scalar fields that \<open>createMany\<close> takes\<close>
  "schema_CaseManager =
     [(''id'', False), (''attorneyId'', True), (''createdAt'', True), (''email'', True),
      (''firstName'', True), (''lastName'', True), (''phone'', True), (''updatedAt'', True)]"

definition create_input_error :: "model \<Rightarrow> string list \<Rightarrow> thrown option" where
  \<comment> \<open>the check of the keys of \<open>data\<close> against the model; the message names the
      argument, the rest of the client's text is not modelled\<close>
  "create_input_error m keys =
     (case find (\<lambda>k. k \<notin> set (map fst m)) keys of
        Some k \<Rightarrow> Some (Error (''Unknown argument '' @ k))
      | None \<Rightarrow>
          (case find (\<lambda>f. snd f \<and> fst f \<notin> set keys) m of
             Some f \<Rightarrow> Some (Error (''Argument '' @ fst f @ '' is missing''))
           | None \<Rightarrow> None))"

definition user_create ::
  "env \<Rightarrow> string \<Rightarrow> string \<Rightarrow> string \<Rightarrow> string \<Rightarrow> db \<Rightarrow> thrown + user_row \<times> db" where
  \<comment> \<open>\<open>tx.user.create({ data: { email, name, role, password } })\<close>; \<open>email\<close> is unique\<close>
  "user_create e email name role password d =
     (case create_input_error schema_User [''email'', ''name'', ''role'', ''password''] of
        Some err \<Rightarrow> Inl err
      | None \<Rightarrow>
          if user_findUnique_email d email \<noteq> None then
            Inl (PrismaClientKnownRequestError ''P2002''
                   ''Unique constraint failed on the fields: (email)'')
          else
            let user = \<lparr>u_id = newId e d, u_email = email, u_name = name,
                         u_password = password, u_role = role\<rparr>
            in Inr (user, d\<lparr>users := users d @ [user]\<rparr>))"

definition key_if_defined :: "string \<Rightarrow> 'a option \<Rightarrow> string list" where
  \<comment> \<open>a key of an object literal whose value may be \<open>undefined\<close>: the client leaves an
      undefined value out of the call\<close>
  "key_if_defined key v = (if v = None then [] else [key])"

definition attorneyData_keys :: "attorney_row \<Rightarrow> string list" where
  \<comment> \<open>the keys of \<open>attorneyData\<close> (lines 159-170): \<open>userId\<close> holds the new user's id,
      \<open>barNumber\<close> and \<open>firm\<close> hold \<open>null\<close>, the profile fields hold what the payload has\<close>
  "attorneyData_keys a =
     [''userId''] @ key_if_defined ''phone'' (a_phone a)
     @ key_if_defined ''faxNumber'' (a_faxNumber a)
     @ key_if_defined ''address'' (a_address a) @ key_if_defined ''city'' (a_city a)
     @ key_if_defined ''state'' (a_state a) @ key_if_defined ''zipcode'' (a_zipcode a)
     @ key_if_defined ''notes'' (a_notes a) @ [''barNumber'', ''firm'']"

definition attorney_create :: "env \<Rightarrow> attorney_row \<Rightarrow> db \<Rightarrow> thrown + attorney_row \<times> db" where
  \<comment> \<open>\<open>tx.attorney.create\<close>: the store gives the row its \<open>id\<close>; \<open>userId\<close> is unique\<close>
  "attorney_create e attorneyData d =
     (case create_input_error schema_Attorney (attorneyData_keys attorneyData) of
        Some err \<Rightarrow> Inl err
      | None \<Rightarrow>
          if find (\<lambda>a. a_userId a = a_userId attorneyData) (attorneys d) \<noteq> None then
            Inl (PrismaClientKnownRequestError ''P2002''
                   ''Unique constraint failed on the fields: (userId)'')
          else
            let attorney = attorneyData\<lparr>a_id := newId e d\<rparr>
            in Inr (attorney, d\<lparr>attorneys := attorneys d @ [attorney]\<rparr>))"

fun caseManager_insert :: "env \<Rightarrow> caseManager_row list \<Rightarrow> db \<Rightarrow> db" where
  "caseManager_insert e [] d = d"
| "caseManager_insert e (m # ms) d =
     caseManager_insert e ms (d\<lparr>caseManagers := caseManagers d @ [m\<lparr>cm_id := newId e d\<rparr>]\<rparr>)"

definition caseManager_createMany :: "env \<Rightarrow> caseManager_row list \<Rightarrow> db \<Rightarrow> thrown + db" where
  \<comment> \<open>\<open>tx.caseManager.createMany\<close> with the keys of lines 197-202 in every element\<close>
  "caseManager_createMany e rows d =
     (case create_input_error schema_CaseManager
             [''attorneyId'', ''name'', ''email'', ''phone'', ''phoneExt'', ''faxNumber''] of
        Some err \<Rightarrow> Inl err
      | None \<Rightarrow> Inr (caseManager_insert e rows d))"

definition caseManager_deleteMany :: "string \<Rightarrow> db \<Rightarrow> db" where
  \<comment> \<open>\<open>tx.caseManager.deleteMany({ where: { attorneyId } })\<close>\<close>
  "caseManager_deleteMany attorneyId d =
     d\<lparr>caseManagers := filter (\<lambda>c. cm_attorneyId c \<noteq> attorneyId) (caseManagers d)\<rparr>"

definition record_not_found :: thrown where
  "record_not_found =
     PrismaClientKnownRequestError ''P2025''
       ''An operation failed because it depends on one or more records that were required but not found.''"

definition attorney_delete :: "string \<Rightarrow> db \<Rightarrow> thrown + db" where
  "attorney_delete i d =
     (if attorney_findUnique d i = None then Inl record_not_found
      else Inr (d\<lparr>attorneys := filter (\<lambda>a. a_id a \<noteq> i) (attorneys d)\<rparr>))"

definition user_delete :: "string \<Rightarrow> db \<Rightarrow> thrown + db" where
  "user_delete i d =
     (if user_findUnique_id d i = None then Inl record_not_found
      else Inr (d\<lparr>users := filter (\<lambda>u. u_id u \<noteq> i) (users d)\<rparr>))"

record attorney_update =
  upd_password :: "string option"
  upd_phone :: "string option option"  \<comment> \<open>absent, \<open>null\<close> or a string\<close>
  upd_faxNumber :: "string option option"
  upd_address :: "string option option"
  upd_city :: "string option option"
  upd_state :: "string option option"
  upd_zipcode :: "string option option"
  upd_notes :: "string option option"

definition set_column :: "'a option \<Rightarrow> 'a \<Rightarrow> 'a" where
  \<comment> \<open>the value of a column after an update: the value given, the old one if none is\<close>
  "set_column given old = (case given of None \<Rightarrow> old | Some v \<Rightarrow> v)"

definition attorney_update_row :: "attorney_update \<Rightarrow> attorney_row \<Rightarrow> attorney_row" where
  "attorney_update_row attorneyData a =
     a\<lparr>a_phone := set_column (upd_phone attorneyData) (a_phone a),
       a_faxNumber := set_column (upd_faxNumber attorneyData) (a_faxNumber a),
       a_address := set_column (upd_address attorneyData) (a_address a),
       a_city := set_column (upd_city attorneyData) (a_city a),
       a_state := set_column (upd_state attorneyData) (a_state a),
       a_zipcode := set_column (upd_zipcode attorneyData) (a_zipcode a),
       a_notes := set_column (upd_notes attorneyData) (a_notes a)\<rparr>"

definition attorney_update_where ::
  "string \<Rightarrow> attorney_update \<Rightarrow> db \<Rightarrow> thrown + attorney_row \<times> db" where
  \<comment> \<open>\<open>tx.attorney.update({ where: { id }, data })\<close>\<close>
  "attorney_update_where i attorneyData d =
     (case attorney_findUnique d i of
        None \<Rightarrow> Inl record_not_found
      | Some a \<Rightarrow>
          Inr (attorney_update_row attorneyData a,
               d\<lparr>attorneys :=
                   map (\<lambda>r. if a_id r = i then attorney_update_row attorneyData r else r)
                     (attorneys d)\<rparr>))"

definition user_update_password :: "string \<Rightarrow> string \<Rightarrow> db \<Rightarrow> thrown + db" where
  \<comment> \<open>\<open>tx.user.update({ where: { id }, data: { password } })\<close>\<close>
  "user_update_password i hashedPassword d =
     (if user_findUnique_id d i = None then Inl record_not_found
      else Inr (d\<lparr>users :=
                    map (\<lambda>u. if u_id u = i then u\<lparr>u_password := hashedPassword\<rparr> else u)
                      (users d)\<rparr>))"

section \<open>The attorneys route\<close>

record caseManagerData =
  cmd_name :: string
  cmd_email :: string
  cmd_phone :: string
  cmd_phoneExt :: "string option"
  cmd_faxNumber :: "string option"

record attorney_post =
  post_name :: "string option"
  post_email :: "string option"
  post_password :: "string option"
  post_hasLogin :: "bool option"
  post_phone :: "string option"
  post_faxNumber :: "string option"
  post_address :: "string option"
  post_city :: "string option"
  post_state :: "string option"
  post_zipcode :: "string option"
  post_notes :: "string option"
  post_caseManagers :: "caseManagerData list option"

definition or_null :: "string option \<Rightarrow> string option" where
  \<comment> \<open>\<open>value || null\<close>\<close>
  "or_null v = (if truthy v then v else None)"

definition POST_transaction ::
  "env \<Rightarrow> attorney_post \<Rightarrow> string \<Rightarrow> string \<Rightarrow> db \<Rightarrow> thrown + body \<times> db" where
  "POST_transaction e b name email d =
     (case user_create e email name ''ATTORNEY''
             (if post_hasLogin b = Some True \<and> truthy (post_password b)
              then hash e (ToString (post_password b)) else [])
             d of
        Inl err \<Rightarrow> Inl err
      | Inr (user, d1) \<Rightarrow>
          (case attorney_create e
                  \<lparr>a_id = [], a_userId = u_id user, a_phone = post_phone b,
                   a_faxNumber = post_faxNumber b, a_address = post_address b,
                   a_city = post_city b, a_state = post_state b,
                   a_zipcode = post_zipcode b, a_notes = post_notes b,
                   a_barNumber = None, a_firm = None\<rparr>
                  d1 of
             Inl err \<Rightarrow> Inl err
           | Inr (attorney, d2) \<Rightarrow>
               let attorneyProfile =
                     AttorneyWithRelations attorney
                       (map_option (\<lambda>u. \<lparr>us_name = u_name u, us_email = u_email u\<rparr>)
                          (user_findUnique_id d2 (a_userId attorney)))
                       (filter (\<lambda>c. cm_attorneyId c = a_id attorney) (caseManagers d2));
                   created =
                     (case post_caseManagers b of
                        None \<Rightarrow> Inr d2
                      | Some managers \<Rightarrow>
                          if length managers > 0 then
                            (let validCaseManagers =
                                   filter (\<lambda>manager. cmd_name manager \<noteq> []
                                             \<and> cmd_email manager \<noteq> [] \<and> cmd_phone manager \<noteq> [])
                                     managers
                             in if length validCaseManagers > 0 then
                                  caseManager_createMany e
                                    (map (\<lambda>manager.
                                            \<lparr>cm_id = [], cm_attorneyId = a_id attorney,
                                             cm_name = cmd_name manager,
                                             cm_email = cmd_email manager,
                                             cm_phone = cmd_phone manager,
                                             cm_phoneExt = or_null (cmd_phoneExt manager),
                                             cm_faxNumber = or_null (cmd_faxNumber manager)\<rparr>)
                                       validCaseManagers)
                                    d2
                                else Inr d2)
                          else Inr d2)
               in (case created of
                     Inl err \<Rightarrow> Inl err
                   | Inr d3 \<Rightarrow> Inr (attorneyProfile, d3))))"

definition POST_catch :: "thrown \<Rightarrow> response" where
  "POST_catch error =
     (case error of
        PrismaClientKnownRequestError code message \<Rightarrow>
          if code = ''P2002'' then
            NextResponse_json
              (Message ''A unique constraint violation occurred. The email may already be registered.'')
              400
          else NextResponse_json (Message (''Database error: '' @ message)) 400
      | Error message \<Rightarrow> NextResponse_json (Message message) 500
      | NonError \<Rightarrow> NextResponse_json (Message ''Error creating attorney'') 500)"

definition POST :: "env \<Rightarrow> attorney_post request \<Rightarrow> db \<Rightarrow> response \<times> db" where
  "POST e req d =
     (case json_body req of
        Inl err \<Rightarrow> (POST_catch err, d)
      | Inr b \<Rightarrow>
          if \<not> truthy (post_name b) \<or> \<not> truthy (post_email b) then
            (NextResponse_json (Message ''Name and email are required'') 400, d)
          else if post_hasLogin b = Some True \<and> \<not> truthy (post_password b) then
            (NextResponse_json (Message ''Password is required when login access is enabled'') 400, d)
          else
            (case fault e FindUser of
               Some err \<Rightarrow> (POST_catch err, d)
             | None \<Rightarrow>
                 if user_findUnique_email d (ToString (post_email b)) \<noteq> None then
                   (NextResponse_json (Message ''Email already registered'') 400, d)
                 else
                   (case transaction e
                           (POST_transaction e b (ToString (post_name b)) (ToString (post_email b)))
                           d of
                      (Inl err, d') \<Rightarrow> (POST_catch err, d')
                    | (Inr attorney, d') \<Rightarrow> (NextResponse_json attorney 200, d'))))"

definition PUT_transaction ::
  "env \<Rightarrow> string \<Rightarrow> attorney_update \<Rightarrow> db \<Rightarrow> thrown + body \<times> db" where
  "PUT_transaction e i data d =
     (case attorney_update_where i data d of
        Inl err \<Rightarrow> Inl err
      | Inr (attorney, d1) \<Rightarrow>
          if truthy (upd_password data) then
            (case user_update_password (a_userId attorney)
                    (hash e (ToString (upd_password data))) d1 of
               Inl err \<Rightarrow> Inl err
             | Inr d2 \<Rightarrow> Inr (AttorneyOnly attorney, d2))
          else Inr (AttorneyOnly attorney, d1))"

definition PUT :: "env \<Rightarrow> attorney_update request \<Rightarrow> db \<Rightarrow> response \<times> db" where
  "PUT e req d =
     (if \<not> truthy (query_id req) then
        (NextResponse_json (Message ''Attorney ID is required'') 400, d)
      else
        let token = (case authorization req of
                       None \<Rightarrow> None
                     | Some header \<Rightarrow> element (split '' '' header) 1)
        in if \<not> truthy token then (NextResponse_json (Message ''Unauthorized'') 401, d)
           else
             let decoded = Promise (jwtVerify e (ToString token))
             in if promise_property decoded ''role'' \<noteq> Some ''ADMIN'' then
                  (NextResponse_json (Message ''Unauthorized'') 401, d)
                else
                  (case json_body req of
                     Inl err \<Rightarrow> (NextResponse_json (Message ''Failed to update attorney'') 500, d)
                   | Inr data \<Rightarrow>
                       (case transaction e (PUT_transaction e (ToString (query_id req)) data) d of
                          (Inl err, d') \<Rightarrow>
                            (NextResponse_json (Message ''Failed to update attorney'') 500, d')
                        | (Inr result, d') \<Rightarrow> (NextResponse_json result 200, d'))))"

definition cookie_token :: "string option \<Rightarrow> string option" where
  \<comment> \<open>\<open>cookieHeader?.split('; ').find(row => row.startsWith('token='))?.split('=')[1]\<close>\<close>
  "cookie_token cookieHeader =
     (case cookieHeader of
        None \<Rightarrow> None
      | Some header \<Rightarrow>
          (case find (\<lambda>row. startsWith row ''token='') (split ''; '' header) of
             None \<Rightarrow> None
           | Some row \<Rightarrow> element (split ''='' row) 1))"

definition DELETE_transaction :: "string \<Rightarrow> attorney_row \<Rightarrow> db \<Rightarrow> thrown + unit \<times> db" where
  "DELETE_transaction i attorney d =
     (case attorney_delete i (caseManager_deleteMany i d) of
        Inl err \<Rightarrow> Inl err
      | Inr d2 \<Rightarrow>
          (case user_delete (a_userId attorney) d2 of
             Inl err \<Rightarrow> Inl err
           | Inr d3 \<Rightarrow> Inr ((), d3)))"

definition DELETE :: "env \<Rightarrow> unit request \<Rightarrow> db \<Rightarrow> response \<times> db" where
  "DELETE e req d =
     (if \<not> truthy (query_id req) then
        (NextResponse_json (Message ''Attorney ID is required'') 400, d)
      else
        let i = ToString (query_id req);
            token = cookie_token (cookie req)
        in if \<not> truthy token then (NextResponse_json (Message ''Unauthorized'') 401, d)
           else
             (case jwtVerify e (ToString token) of
                Inl err \<Rightarrow> (NextResponse_json (Message ''Failed to delete attorney'') 500, d)
              | Inr payload \<Rightarrow>
                  let userRole = toUpperCase (if truthy (jwt_role payload)
                                              then ToString (jwt_role payload) else [])
                  in (case fault e FindAttorney of
                        Some err \<Rightarrow>
                          (NextResponse_json (Message ''Failed to delete attorney'') 500, d)
                      | None \<Rightarrow>
                          (case attorney_findUnique d i of
                             None \<Rightarrow> (NextResponse_json (Message ''Attorney not found'') 404, d)
                           | Some attorney \<Rightarrow>
                               let isAdmin = (userRole = ''ADMIN'');
                                   isOwnProfile = (Some (a_userId attorney) = jwt_userId payload)
                               in if \<not> isAdmin \<and> \<not> isOwnProfile then
                                    (NextResponse_json (Message ''Unauthorized'') 403, d)
                                  else
                                    (case transaction e (DELETE_transaction i attorney) d of
                                       (Inl err, d') \<Rightarrow>
                                         (NextResponse_json
                                            (Message ''Failed to delete attorney'') 500, d')
                                     | (Inr u, d') \<Rightarrow>
                                         (NextResponse_json
                                            (Message ''Attorney deleted successfully'') 200,
                                          d'))))))"

section \<open>The tasks route\<close>






section \<open>Example data\<close>

definition example_env :: env where
  \<comment> \<open>three valid tokens: an administrator, a staff member and the attorney \<open>u1\<close>\<close>
  "example_env =
     \<lparr>jwtVerify =
        (\<lambda>t. if t = ''adm'' then Inr \<lparr>jwt_role = Some ''admin'', jwt_userId = Some ''u0''\<rparr>
              else if t = ''stf'' then Inr \<lparr>jwt_role = Some ''STAFF'', jwt_userId = Some ''u9''\<rparr>
              else if t = ''own'' then Inr \<lparr>jwt_role = Some ''ATTORNEY'', jwt_userId = Some ''u1''\<rparr>
              else Inl (Error ''signature verification failed'')),
      hash = (\<lambda>p. ''$2a$10$'' @ p),
      newId = (\<lambda>d. ''id'' @ toString_nat (length (users d) + length (attorneys d)
                                           + length (caseManagers d) + length (tasks d))),
      fault = (\<lambda>c. None),
      parse_other_date = (\<lambda>s. None)\<rparr>"

definition example_admin_env :: env where
  \<comment> \<open>the example environment with one more token, of an administrator whose role is
      written in capitals\<close>
  "example_admin_env =
     example_env\<lparr>jwtVerify :=
       (\<lambda>t. if t = ''ADM'' then Inr \<lparr>jwt_role = Some ''ADMIN'', jwt_userId = Some ''u0''\<rparr>
             else jwtVerify example_env t)\<rparr>"

definition example_user :: user_row where
  "example_user =
     \<lparr>u_id = ''u1'', u_email = ''al@x.com'', u_name = ''Al'', u_password = ''$2a$10$old'',
      u_role = ''ATTORNEY''\<rparr>"

definition example_attorney :: attorney_row where
  "example_attorney =
     \<lparr>a_id = ''a1'', a_userId = ''u1'', a_phone = Some ''555'', a_faxNumber = None,
      a_address = None, a_city = Some ''Mobile'', a_state = None, a_zipcode = None,
      a_notes = None, a_barNumber = None, a_firm = None\<rparr>"

definition example_caseManager :: caseManager_row where
  "example_caseManager =
     \<lparr>cm_id = ''c1'', cm_attorneyId = ''a1'', cm_name = ''Cy'', cm_email = ''cy@x.com'',
      cm_phone = ''1'', cm_phoneExt = None, cm_faxNumber = None\<rparr>"

definition example_db :: db where
  \<comment> \<open>one attorney \<open>a1\<close>, its user \<open>u1\<close> and its case manager \<open>c1\<close>\<close>
  "example_db =
     \<lparr>users = [example_user], attorneys = [example_attorney],
      caseManagers = [example_caseManager], tasks = []\<rparr>"

definition storage_failing :: "thrown \<Rightarrow> env" where
  \<comment> \<open>the example environment, with a store whose transactions fail with \<open>err\<close>\<close>
  "storage_failing err =
     example_env\<lparr>fault := (\<lambda>c. if c = Transaction then Some err else None)\<rparr>"

definition example_request :: "'p \<Rightarrow> 'p request" where
  \<comment> \<open>a request for the attorney \<open>a1\<close> with no credential and the payload \<open>p\<close>\<close>
  "example_request p =
     \<lparr>query_id = Some ''a1'', authorization = None, cookie = None, session_user = None,
      json_body = Inr p\<rparr>"

definition example_post :: attorney_post where
  \<comment> \<open>\<open>{name: "Jane Doe", email: "jane@x.com"}\<close>\<close>
  "example_post =
     \<lparr>post_name = Some ''Jane Doe'', post_email = Some ''jane@x.com'', post_password = None,
      post_hasLogin = None, post_phone = None, post_faxNumber = None, post_address = None,
      post_city = None, post_state = None, post_zipcode = None, post_notes = None,
      post_caseManagers = None\<rparr>"

definition example_update :: attorney_update where
  \<comment> \<open>\<open>{password: "pw", faxNumber: null, city: "Houston"}\<close>\<close>
  "example_update =
     \<lparr>upd_password = Some ''pw'', upd_phone = None, upd_faxNumber = Some None,
      upd_address = None, upd_city = Some (Some ''Houston''), upd_state = None,
      upd_zipcode = None, upd_notes = None\<rparr>"


definition references_ok :: "db \<Rightarrow> bool" where
  \<comment> \<open>every case manager refers to an attorney that exists\<close>
  "references_ok d =
     list_all (\<lambda>c. list_ex (\<lambda>a. a_id a = cm_attorneyId c) (attorneys d)) (caseManagers d)"

section \<open>Properties of the phone number mask\<close>

lemma is_digit_punct [simp]:
  "\<not> is_digit CHR ''(''" "\<not> is_digit CHR '')''" "\<not> is_digit CHR '' ''"
  "\<not> is_digit CHR ''-''" "\<not> is_digit CHR ''/''"
  by (simp_all add: is_digit_def)

lemma filter_digits_id: "\<forall>c \<in> set ds. is_digit c \<Longrightarrow> filter is_digit ds = ds"
  by (induction ds) auto

lemma filter_digits_take: "\<forall>c \<in> set ds. is_digit c \<Longrightarrow> filter is_digit (take n ds) = take n ds"
  by (rule filter_digits_id) (auto dest: in_set_takeD)

lemma filter_digits_drop: "\<forall>c \<in> set ds. is_digit c \<Longrightarrow> filter is_digit (drop n ds) = drop n ds"
  by (rule filter_digits_id) (auto dest: in_set_dropD)

lemma filter_digits_take_drop:
  "\<forall>c \<in> set ds. is_digit c \<Longrightarrow> filter is_digit (take n (drop m ds)) = take n (drop m ds)"
  by (rule filter_digits_id) (auto dest: in_set_takeD in_set_dropD)

lemma take3_drop3_drop6: "take 3 ds @ take 3 (drop 3 ds) @ drop 6 ds = ds"
proof -
  have "take 3 (drop 3 ds) @ drop 6 ds = drop 3 ds"
    using append_take_drop_id [of 3 "drop 3 ds"] by simp
  then show ?thesis
    by simp
qed

lemma formatPhoneNumber_short:
  assumes "\<forall>c \<in> set ds. is_digit c" and "length ds \<le> 3"
  shows "formatPhoneNumber ds = ds"
  using assms by (simp add: formatPhoneNumber_def strip_non_digits_def filter_digits_id)

lemma formatPhoneNumber_mid:
  assumes "\<forall>c \<in> set ds. is_digit c" and "3 < length ds" and "length ds \<le> 6"
  shows "formatPhoneNumber ds = ''('' @ take 3 ds @ '') '' @ drop 3 ds"
  using assms
  by (simp add: formatPhoneNumber_def strip_non_digits_def filter_digits_id slice_def
      slice_from_def)

lemma formatPhoneNumber_long:
  assumes "\<forall>c \<in> set ds. is_digit c" and "6 < length ds" and "length ds \<le> 10"
  shows "formatPhoneNumber ds =
           ''('' @ take 3 ds @ '') '' @ take 3 (drop 3 ds) @ ''-'' @ drop 6 ds"
  using assms
  by (simp add: formatPhoneNumber_def strip_non_digits_def filter_digits_id slice_def
      slice_from_def)

text \<open>
  C3. For a string \<open>ds\<close> of at most ten digits, \<open>formatPhoneNumber\<close> gives the display
  form \<open>(XXX) XXX-XXXX\<close> cut off after the last digit given: the digits themselves (up to
  three digits), \<open>(XXX) X..\<close> (four to six digits) or \<open>(XXX) XXX-X..\<close> (seven to ten
  digits, fourteen characters for ten digits); and removing every non-digit character
  from the result gives \<open>ds\<close> back.
\<close>

theorem formatPhoneNumber_roundtrip:
  assumes "\<forall>c \<in> set ds. is_digit c" and "length ds \<le> 10"
  shows "strip_non_digits (formatPhoneNumber ds) = ds
       \<and> formatPhoneNumber ds =
           (if length ds \<le> 3 then ds
            else if length ds \<le> 6 then ''('' @ take 3 ds @ '') '' @ drop 3 ds
            else ''('' @ take 3 ds @ '') '' @ take 3 (drop 3 ds) @ ''-'' @ drop 6 ds)
       \<and> (length ds = 10 \<longrightarrow> length (formatPhoneNumber ds) = 14)"
proof -
  consider "length ds \<le> 3" | "3 < length ds" "length ds \<le> 6" | "6 < length ds"
    by linarith
  then show ?thesis
  proof cases
    case 1
    then show ?thesis
      using assms(1)
      by (simp add: formatPhoneNumber_short strip_non_digits_def filter_digits_id)
  next
    case 2
    then show ?thesis
      using assms(1)
      by (simp add: formatPhoneNumber_mid strip_non_digits_def filter_digits_take
          filter_digits_drop)
  next
    case 3
    then show ?thesis
      using assms take3_drop3_drop6 [of ds]
      by (simp add: formatPhoneNumber_long strip_non_digits_def filter_digits_take
          filter_digits_drop filter_digits_take_drop)
  qed
qed

theorem formatPhoneNumber_roundtrip_witness:
  "strip_non_digits (formatPhoneNumber ''7135550142'') = ''7135550142''
   \<and> formatPhoneNumber ''7135550142'' = ''(713) 555-0142''
   \<and> length (formatPhoneNumber ''7135550142'') = 14"
  using formatPhoneNumber_roundtrip [of "''7135550142''"]
  by (simp add: is_digit_def strip_non_digits_def)

section \<open>Properties of the date mask\<close>

lemma digit_not_white_space: "is_digit c \<Longrightarrow> \<not> is_white_space c"
  by (auto simp: is_digit_def is_white_space_def)

lemma digit_not_sign: "is_digit c \<Longrightarrow> c \<noteq> CHR ''+'' \<and> c \<noteq> CHR ''-'' \<and> c \<noteq> CHR ''x'' \<and> c \<noteq> CHR ''X''"
  by (auto simp: is_digit_def)

lemma parseInt_digits:
  assumes "all_digits s" and "s \<noteq> []"
  shows "parseInt s = Some (decimal s)"
proof -
  obtain c cs where s: "s = c # cs"
    using assms(2) by (cases s) auto
  have c: "is_digit c" and cs: "list_all is_digit cs"
    using assms(1) by (simp_all add: all_digits_def s)
  have tw: "takeWhile is_digit s = s"
    using assms(1) by (simp add: all_digits_def list_all_iff)
  have nox: "take 2 s \<noteq> ''0x''" "take 2 s \<noteq> ''0X''"
  proof -
    show "take 2 s \<noteq> ''0x''"
    proof (cases cs)
      case Nil then show ?thesis by (simp add: s)
    next
      case (Cons d ds)
      then have "is_digit d" using cs by simp
      then show ?thesis using digit_not_sign [of d] by (auto simp: s Cons)
    qed
    show "take 2 s \<noteq> ''0X''"
    proof (cases cs)
      case Nil then show ?thesis by (simp add: s)
    next
      case (Cons d ds)
      then have "is_digit d" using cs by simp
      then show ?thesis using digit_not_sign [of d] by (auto simp: s Cons)
    qed
  qed
  have dw: "dropWhile is_white_space s = s"
    using digit_not_white_space [OF c] by (simp add: s)
  have hd: "hd s \<noteq> CHR ''-''" "hd s \<noteq> CHR ''+''"
    using digit_not_sign [OF c] by (simp_all add: s)
  have "parseInt s = (let Z = takeWhile is_digit s
            in if Z = [] then None else Some (1 * int (radix_value 10 digit_val Z)))"
    unfolding parseInt_def dw Let_def using hd nox by simp
  then show ?thesis
    using tw assms(2) by (simp add: decimal_def)
qed

lemma all_digits_take: "all_digits s \<Longrightarrow> all_digits (take n s)"
  by (auto simp: all_digits_def list_all_iff dest: in_set_takeD)

lemma all_digits_drop: "all_digits s \<Longrightarrow> all_digits (drop n s)"
  by (auto simp: all_digits_def list_all_iff dest: in_set_dropD)

lemma all_digits_strip: "all_digits (strip_non_digits s)"
  by (simp add: all_digits_def strip_non_digits_def list_all_iff)

lemma decimal_12: "decimal ''12'' = 12" and decimal_31: "decimal ''31'' = 31"
  by (simp_all add: decimal_def radix_value_def digit_val_def)

text \<open>
  C9 (as amended). For a date field, let \<open>numbers\<close> be the first eight digits of the
  input. With at most two digits the mask stores them unchanged; with three or four it
  stores the month, \<open>/\<close> and the remaining digits; with more it stores month, day and
  year separated by \<open>/\<close>. The month stored is the typed two-digit month, replaced by
  \<open>12\<close> when it exceeds 12, and the day stored in the last case is the typed two-digit
  day, replaced by \<open>31\<close> when it exceeds 31.
\<close>

theorem handleChange_date_mask:
  assumes "name = ''dateOfBirth'' \<or> name = ''doidol'' \<or> name = ''orderDate''"
    and "numbers = slice (strip_non_digits value) 0 8"
    and "mm = (if 12 < decimal (take 2 numbers) then ''12'' else take 2 numbers)"
    and "dd = (if 31 < decimal (take 2 (drop 2 numbers)) then ''31''
               else take 2 (drop 2 numbers))"
  shows "handleChange name value prev name =
           Some (if length numbers \<le> 2 then numbers
                 else if length numbers \<le> 4 then mm @ ''/'' @ drop 2 numbers
                 else mm @ ''/'' @ dd @ ''/'' @ drop 4 numbers)
       \<and> (2 < length numbers \<longrightarrow> decimal mm \<le> 12)
       \<and> (4 < length numbers \<longrightarrow> decimal dd \<le> 31)"
proof -
  have digs: "all_digits numbers"
    by (simp add: assms(2) slice_def all_digits_take all_digits_strip)
  have len: "length numbers \<le> 8"
    by (simp add: assms(2) slice_def)
  have s02: "slice numbers 0 2 = take 2 numbers"
    and s24: "slice numbers 2 4 = take 2 (drop 2 numbers)"
    and s2: "slice_from numbers 2 = drop 2 numbers"
    by (simp_all add: slice_def slice_from_def)
  have month: "2 < length numbers \<Longrightarrow>
      parseInt (take 2 numbers) = Some (decimal (take 2 numbers))"
  proof -
    assume "2 < length numbers"
    then have "take 2 numbers \<noteq> []" by auto
    then show ?thesis
      using parseInt_digits [of "take 2 numbers"] digs
      by (simp add: all_digits_take)
  qed
  have day: "4 < length numbers \<Longrightarrow>
      parseInt (take 2 (drop 2 numbers)) = Some (decimal (take 2 (drop 2 numbers)))"
  proof -
    assume "4 < length numbers"
    then have "take 2 (drop 2 numbers) \<noteq> []" by auto
    then show ?thesis
      using parseInt_digits [of "take 2 (drop 2 numbers)"] digs
      by (simp add: all_digits_take all_digits_drop)
  qed
  have year: "slice numbers 4 8 = drop 4 numbers"
    using len by (simp add: slice_def)
  have "formattedValue name value =
      (if length numbers \<le> 2 then numbers
       else if length numbers \<le> 4 then
         (if exceeds (parseInt (slice numbers 0 2)) 12 then ''12/'' @ slice_from numbers 2
          else slice numbers 0 2 @ ''/'' @ slice_from numbers 2)
       else
         (let v1 = (if exceeds (parseInt (slice numbers 0 2)) 12 then ''12''
                    else slice numbers 0 2);
              v2 = (if exceeds (parseInt (slice numbers 2 4)) 31 then v1 @ ''/31''
                    else v1 @ ''/'' @ slice numbers 2 4)
          in if slice numbers 4 8 \<noteq> [] then v2 @ ''/'' @ slice numbers 4 8 else v2))"
    unfolding formattedValue_def assms(2) Let_def using assms(1) by auto
  then have fv: "formattedValue name value =
      (if length numbers \<le> 2 then numbers
       else if length numbers \<le> 4 then mm @ ''/'' @ drop 2 numbers
       else mm @ ''/'' @ dd @ ''/'' @ drop 4 numbers)"
    using month day
    by (auto simp: s02 s24 s2 year assms(3) assms(4) exceeds_def Let_def)
  show ?thesis
    by (simp add: handleChange_def fv assms(3) assms(4) decimal_12 decimal_31)
qed

theorem handleChange_date_mask_witness:
  "handleChange ''dateOfBirth'' ''13/45/1999'' Map.empty ''dateOfBirth'' = Some ''12/31/1999''"
  using handleChange_date_mask [of "''dateOfBirth''" "''13451999''" "''13/45/1999''" "''12''" "''31''" Map.empty]
  by (simp add: slice_def strip_non_digits_def is_digit_def decimal_def radix_value_def digit_val_def)

text \<open>
  The mask does not bound every component it stores: two typed digits are stored as they
  are, and so is a day typed after the month while no year digit follows.
\<close>

theorem handleChange_date_mask_counterexample:
  "formattedValue ''dateOfBirth'' ''13'' = ''13''
   \<and> exceeds (parseInt (ToString (element (split ''/'' (formattedValue ''dateOfBirth'' ''13'')) 0))) 12
   \<and> formattedValue ''dateOfBirth'' ''1245'' = ''12/45''
   \<and> exceeds (parseInt (ToString (element (split ''/'' (formattedValue ''dateOfBirth'' ''1245'')) 1))) 31"
  by code_simp

section \<open>Properties of the calendar arithmetic\<close>

lemma DayFromYear_mono: "y \<le> y' \<Longrightarrow> DayFromYear y \<le> DayFromYear y'"
proof (induction y' rule: int_ge_induct)
  case base
  show ?case by simp
next
  case (step i)
  then show ?case
    using DayFromYear_less [of i] by simp
qed

lemma DayFromYear_1970: "DayFromYear 1970 = 0"
  by (simp add: DayFromYear_def)

lemma DayFromYear_upper: "0 \<le> j \<Longrightarrow> DayFromYear (1970 + j) \<le> 366 * j"
proof (induction j rule: int_ge_induct)
  case base
  show ?case by (simp add: DayFromYear_1970)
next
  case (step i)
  have "DayFromYear (1970 + (i + 1)) = DayFromYear (1970 + i) + DaysInYear (1970 + i)"
    using DayFromYear_Suc [of "1970 + i"] by (simp add: add.assoc)
  then show ?case
    using step DaysInYear_bounds(2) [of "1970 + i"] by simp
qed

lemma DayFromYear_upper_neg: "j \<le> 0 \<Longrightarrow> DayFromYear (1970 + j) \<le> 365 * j"
proof (induction j rule: int_le_induct)
  case base
  show ?case by (simp add: DayFromYear_1970)
next
  case (step i)
  have "DayFromYear (1970 + i) = DayFromYear (1970 + (i - 1)) + DaysInYear (1970 + (i - 1))"
    using DayFromYear_Suc [of "1970 + (i - 1)"] by simp
  then show ?case
    using step DaysInYear_bounds(1) [of "1970 + (i - 1)"] by simp
qed

lemma year_search_unique:
  "y0 \<le> y \<Longrightarrow> DayFromYear y \<le> d \<Longrightarrow> d < DayFromYear (y + 1) \<Longrightarrow> year_search d y0 = y"
proof (induction d y0 rule: year_search.induct)
  case (1 d y0)
  show ?case
  proof (cases "y0 = y")
    case True
    then show ?thesis
      using "1.prems" by (subst year_search.simps) simp
  next
    case False
    then have lt: "y0 + 1 \<le> y" using "1.prems" by simp
    then have "DayFromYear (y0 + 1) \<le> d"
      using DayFromYear_mono [of "y0 + 1" y] "1.prems" by simp
    then show ?thesis
      using "1.IH" lt "1.prems" by (subst year_search.simps) simp
  qed
qed

lemma year_search_bounds:
  "DayFromYear y0 \<le> d \<Longrightarrow>
     DayFromYear (year_search d y0) \<le> d \<and> d < DayFromYear (year_search d y0 + 1)"
proof (induction d y0 rule: year_search.induct)
  case (1 d y0)
  show ?case
  proof (cases "DayFromYear (y0 + 1) \<le> d")
    case True
    then show ?thesis
      using "1.IH" by (subst (1 2) year_search.simps) simp
  next
    case False
    then show ?thesis
      using "1.prems" by (subst (1 2) year_search.simps) simp
  qed
qed

lemma year_start_le:
  "DayFromYear (1970 + (if 0 \<le> d then d div 366 else d div 365)) \<le> d"
proof (cases "0 \<le> d")
  case True
  then have "0 \<le> d div 366" by simp
  then have "DayFromYear (1970 + d div 366) \<le> 366 * (d div 366)"
    by (rule DayFromYear_upper)
  moreover have "366 * (d div 366) \<le> d"
    using True by simp
  ultimately show ?thesis using True by simp
next
  case False
  then have "d div 365 < 0" using div_neg_pos_less0 [of d 365] by simp
  then have "d div 365 \<le> 0" by simp
  then have "DayFromYear (1970 + d div 365) \<le> 365 * (d div 365)"
    by (rule DayFromYear_upper_neg)
  moreover have "365 * (d div 365) \<le> d"
    using mult_div_mod_eq [of 365 d] pos_mod_sign [of 365 d] by linarith
  ultimately show ?thesis using False by simp
qed

lemma YearFromDay_bounds:
  "DayFromYear (YearFromDay d) \<le> d \<and> d < DayFromYear (YearFromDay d + 1)"
  unfolding YearFromDay_def by (rule year_search_bounds [OF year_start_le])

lemma YearFromDay_unique:
  assumes "DayFromYear y \<le> d" and "d < DayFromYear (y + 1)"
  shows "YearFromDay d = y"
proof -
  let ?y0 = "1970 + (if 0 \<le> d then d div 366 else d div 365)"
  have "?y0 \<le> y"
  proof (rule ccontr)
    assume "\<not> ?y0 \<le> y"
    then have "y + 1 \<le> ?y0" by simp
    then have "DayFromYear (y + 1) \<le> DayFromYear ?y0" by (rule DayFromYear_mono)
    then show False using year_start_le [of d] assms(2) by simp
  qed
  then show ?thesis
    unfolding YearFromDay_def using assms by (rule year_search_unique)
qed

lemma YearFromDay_range:
  assumes "DayFromYear a \<le> d" and "d < DayFromYear b"
  shows "a \<le> YearFromDay d \<and> YearFromDay d < b"
proof -
  have bd: "DayFromYear (YearFromDay d) \<le> d" "d < DayFromYear (YearFromDay d + 1)"
    using YearFromDay_bounds [of d] by simp_all
  have "a \<le> YearFromDay d"
  proof (rule ccontr)
    assume "\<not> a \<le> YearFromDay d"
    then have "YearFromDay d + 1 \<le> a" by simp
    then have "DayFromYear (YearFromDay d + 1) \<le> DayFromYear a" by (rule DayFromYear_mono)
    then show False using bd(2) assms(1) by simp
  qed
  moreover have "YearFromDay d < b"
  proof (rule ccontr)
    assume "\<not> YearFromDay d < b"
    then have "b \<le> YearFromDay d" by simp
    then have "DayFromYear b \<le> DayFromYear (YearFromDay d)" by (rule DayFromYear_mono)
    then show False using bd(1) assms(2) by simp
  qed
  ultimately show ?thesis by simp
qed

lemma DaysInYear_cases: "DaysInYear y = 365 \<or> DaysInYear y = 366"
  by (simp add: DaysInYear_def)

lemma Day_of: "0 \<le> r \<Longrightarrow> r < msPerDay \<Longrightarrow> Day (D * msPerDay + r) = D"
  unfolding Day_def msPerDay_def
  using int_div_pos_eq [of "D * 86400000 + r" 86400000 D r] by (simp add: mult.commute)

lemma month_cases:
  "0 \<le> (mn::int) \<Longrightarrow> mn \<le> 11 \<Longrightarrow>
   mn = 0 \<or> mn = 1 \<or> mn = 2 \<or> mn = 3 \<or> mn = 4 \<or> mn = 5 \<or> mn = 6 \<or> mn = 7
   \<or> mn = 8 \<or> mn = 9 \<or> mn = 10 \<or> mn = 11"
  by arith

lemma day_within_year_range:
  assumes "0 \<le> mn" "mn \<le> 11" "1 \<le> dt" "dt \<le> DaysInMonth ym (mn + 1)"
  shows "0 \<le> DayOfYearOfMonth ym mn + dt - 1 \<and> DayOfYearOfMonth ym mn + dt - 1 < DaysInYear ym"
  using month_cases [OF assms(1,2)] assms(3,4) DaysInYear_cases [of ym]
  by (elim disjE) (simp_all add: DayOfYearOfMonth_def DaysInMonth_def)

lemma MonthFromTime_cases:
  "(MonthFromTime t = 0 \<and> DayWithinYear t < 31)
   \<or> (MonthFromTime t = 1 \<and> 31 \<le> DayWithinYear t \<and> DayWithinYear t < 59 + InLeapYear t)
   \<or> (MonthFromTime t = 2 \<and> 59 + InLeapYear t \<le> DayWithinYear t \<and> DayWithinYear t < 90 + InLeapYear t)
   \<or> (MonthFromTime t = 3 \<and> 90 + InLeapYear t \<le> DayWithinYear t \<and> DayWithinYear t < 120 + InLeapYear t)
   \<or> (MonthFromTime t = 4 \<and> 120 + InLeapYear t \<le> DayWithinYear t \<and> DayWithinYear t < 151 + InLeapYear t)
   \<or> (MonthFromTime t = 5 \<and> 151 + InLeapYear t \<le> DayWithinYear t \<and> DayWithinYear t < 181 + InLeapYear t)
   \<or> (MonthFromTime t = 6 \<and> 181 + InLeapYear t \<le> DayWithinYear t \<and> DayWithinYear t < 212 + InLeapYear t)
   \<or> (MonthFromTime t = 7 \<and> 212 + InLeapYear t \<le> DayWithinYear t \<and> DayWithinYear t < 243 + InLeapYear t)
   \<or> (MonthFromTime t = 8 \<and> 243 + InLeapYear t \<le> DayWithinYear t \<and> DayWithinYear t < 273 + InLeapYear t)
   \<or> (MonthFromTime t = 9 \<and> 273 + InLeapYear t \<le> DayWithinYear t \<and> DayWithinYear t < 304 + InLeapYear t)
   \<or> (MonthFromTime t = 10 \<and> 304 + InLeapYear t \<le> DayWithinYear t \<and> DayWithinYear t < 334 + InLeapYear t)
   \<or> (MonthFromTime t = 11 \<and> 334 + InLeapYear t \<le> DayWithinYear t)"
  unfolding MonthFromTime_def Let_def by (simp split: if_splits)

lemma fields_of_day:
  assumes "0 \<le> mn" "mn \<le> 11" "1 \<le> dt" "dt \<le> DaysInMonth ym (mn + 1)"
    and "Day t = DayFromYear ym + DayOfYearOfMonth ym mn + dt - 1"
  shows "YearFromTime t = ym \<and> MonthFromTime t = mn \<and> DateFromTime t = dt"
proof -
  have r: "0 \<le> DayOfYearOfMonth ym mn + dt - 1" "DayOfYearOfMonth ym mn + dt - 1 < DaysInYear ym"
    using day_within_year_range [OF assms(1-4)] by simp_all
  have y: "YearFromTime t = ym"
    unfolding YearFromTime_def
    using r assms(5) by (intro YearFromDay_unique) (simp_all add: DayFromYear_Suc)
  have dwy: "DayWithinYear t = DayOfYearOfMonth ym mn + dt - 1"
    by (simp add: DayWithinYear_def y assms(5))
  have L: "InLeapYear t = (if DaysInYear ym = 366 then 1 else 0)"
    by (simp add: InLeapYear_def y)
  have m: "MonthFromTime t = mn"
    unfolding MonthFromTime_def dwy L
    using month_cases [OF assms(1,2)] assms(3,4) DaysInYear_cases [of ym]
    by (elim disjE) (simp_all add: DayOfYearOfMonth_def DaysInMonth_def)
  have "DateFromTime t = dt"
    unfolding DateFromTime_def m dwy L
    using month_cases [OF assms(1,2)]
    by (elim disjE) (simp_all add: DayOfYearOfMonth_def)
  then show ?thesis using y m by simp
qed

lemma MonthFromTime_range: "0 \<le> MonthFromTime t \<and> MonthFromTime t \<le> 11"
  using MonthFromTime_cases [of t] by (elim disjE) simp_all

lemma DayWithinYear_range:
  "0 \<le> DayWithinYear t \<and> DayWithinYear t < DaysInYear (YearFromTime t)"
  using YearFromDay_bounds [of "Day t"]
  by (simp add: DayWithinYear_def YearFromTime_def DayFromYear_Suc)

lemma InLeapYear_cases:
  "(InLeapYear t = 1 \<and> DaysInYear (YearFromTime t) = 366)
   \<or> (InLeapYear t = 0 \<and> DaysInYear (YearFromTime t) = 365)"
  using DaysInYear_cases [of "YearFromTime t"] by (auto simp: InLeapYear_def)

lemma DateFromTime_range:
  "1 \<le> DateFromTime t \<and> DateFromTime t \<le> DaysInMonth (YearFromTime t) (MonthFromTime t + 1)"
  using MonthFromTime_cases [of t] DayWithinYear_range [of t] InLeapYear_cases [of t]
  by (elim disjE conjE) (simp_all add: DateFromTime_def DaysInMonth_def)

lemma MakeDay_fields: "MakeDay (YearFromTime t) (MonthFromTime t) (DateFromTime t) = Day t"
proof -
  have md: "MonthFromTime t div 12 = 0" "MonthFromTime t mod 12 = MonthFromTime t"
    using MonthFromTime_range [of t] by simp_all
  have "DayOfYearOfMonth (YearFromTime t) (MonthFromTime t) + DateFromTime t - 1 = DayWithinYear t"
    using MonthFromTime_cases [of t] InLeapYear_cases [of t]
    by (elim disjE conjE) (simp_all add: DateFromTime_def DayOfYearOfMonth_def)
  then show ?thesis
    by (simp add: MakeDay_def md DayWithinYear_def Let_def)
qed

lemma time_fields_range:
  "0 \<le> HourFromTime t \<and> HourFromTime t \<le> 23 \<and> 0 \<le> MinFromTime t \<and> MinFromTime t \<le> 59
   \<and> 0 \<le> SecFromTime t \<and> SecFromTime t \<le> 59 \<and> 0 \<le> msFromTime t \<and> msFromTime t \<le> 999"
proof -
  have "(t div 3600000) mod 24 < 24" by simp
  then have h: "(t div 3600000) mod 24 \<le> 23" by linarith
  have "(t div 60000) mod 60 < 60" by simp
  then have m: "(t div 60000) mod 60 \<le> 59" by linarith
  have "(t div 1000) mod 60 < 60" by simp
  then have s: "(t div 1000) mod 60 \<le> 59" by linarith
  have "t mod 1000 < 1000" by simp
  then have ms: "t mod 1000 \<le> 999" by linarith
  show ?thesis
    using h m s ms by (simp add: HourFromTime_def MinFromTime_def SecFromTime_def msFromTime_def)
qed

lemma MakeTime_fields:
  "MakeTime (HourFromTime t) (MinFromTime t) (SecFromTime t) (msFromTime t) = t mod msPerDay"
proof -
  have a: "t mod 86400000 = 3600000 * (t div 3600000 mod 24) + t mod 3600000"
    using zmod_zmult2_eq [of 24 t 3600000] by simp
  have b: "t mod 3600000 = 60000 * (t div 60000 mod 60) + t mod 60000"
    using zmod_zmult2_eq [of 60 t 60000] by simp
  have c: "t mod 60000 = 1000 * (t div 1000 mod 60) + t mod 1000"
    using zmod_zmult2_eq [of 60 t 1000] by simp
  show ?thesis
    unfolding MakeTime_def HourFromTime_def MinFromTime_def SecFromTime_def msFromTime_def
      msPerDay_def a b c
    by simp
qed

lemma MakeDate_fields:
  "MakeDate (MakeDay (YearFromTime t) (MonthFromTime t) (DateFromTime t))
     (MakeTime (HourFromTime t) (MinFromTime t) (SecFromTime t) (msFromTime t)) = t"
  by (simp add: MakeDay_fields MakeTime_fields MakeDate_def Day_def)

section \<open>Properties of decimal numerals\<close>

lemma digit_val_char: "n < 10 \<Longrightarrow> digit_val (digit_char n) = n"
  by (simp add: digit_val_def digit_char_def)

lemma is_digit_char: "n < 10 \<Longrightarrow> is_digit (digit_char n)"
  by (simp add: is_digit_def digit_char_def)

lemma digit_char_val: "is_digit c \<Longrightarrow> digit_char (digit_val c) = c"
  by (simp add: is_digit_def digit_char_def digit_val_def)

lemma digit_val_less: "is_digit c \<Longrightarrow> digit_val c < 10"
  by (auto simp: is_digit_def digit_val_def)

lemma is_digit_0: "is_digit CHR ''0''"
  by (simp add: is_digit_def)

lemma digit_val_pos: "is_digit c \<Longrightarrow> c \<noteq> CHR ''0'' \<Longrightarrow> 0 < digit_val c"
proof -
  assume c: "is_digit c" and n: "c \<noteq> CHR ''0''"
  have "(of_char c :: nat) \<noteq> of_char CHR ''0''"
    using n by (simp only: of_char_eq_iff) simp
  then have "(of_char c :: nat) \<noteq> 48" by simp
  then show ?thesis
    using c by (simp add: is_digit_def digit_val_def)
qed

lemma radix_value_snoc: "radix_value R val (Z @ [c]) = R * radix_value R val Z + val c"
  by (simp add: radix_value_def)

lemma radix_value_zeros:
  "radix_value 10 digit_val (replicate k CHR ''0'' @ Z) = radix_value 10 digit_val Z"
proof -
  have "foldl (\<lambda>acc c. 10 * acc + digit_val c) 0 (replicate k CHR ''0'') = 0"
    by (induction k) (simp_all add: digit_val_def)
  then show ?thesis
    by (simp add: radix_value_def)
qed

lemma all_digits_toString_nat: "all_digits (toString_nat n)"
proof (induction n rule: toString_nat.induct)
  case (1 n)
  show ?case
  proof (cases "n < 10")
    case True
    then show ?thesis
      by (subst toString_nat.simps) (simp add: all_digits_def is_digit_char)
  next
    case False
    then have "all_digits (toString_nat (n div 10))" using 1 by simp
    then show ?thesis
      using False by (subst toString_nat.simps) (simp add: all_digits_def is_digit_char)
  qed
qed

lemma decimal_toString_nat: "radix_value 10 digit_val (toString_nat n) = n"
proof (induction n rule: toString_nat.induct)
  case (1 n)
  show ?case
  proof (cases "n < 10")
    case True
    then show ?thesis
      by (subst toString_nat.simps) (simp add: radix_value_def digit_val_char)
  next
    case False
    then have "radix_value 10 digit_val (toString_nat (n div 10)) = n div 10" using 1 by simp
    then show ?thesis
      using False by (subst toString_nat.simps) (simp add: radix_value_snoc digit_val_char)
  qed
qed

lemma length_toString_nat: "n < 10 ^ k \<Longrightarrow> 0 < k \<Longrightarrow> length (toString_nat n) \<le> k"
proof (induction n arbitrary: k rule: toString_nat.induct)
  case (1 n)
  show ?case
  proof (cases "n < 10")
    case True
    then show ?thesis
      using "1.prems" by (subst toString_nat.simps) simp
  next
    case False
    then obtain j where k: "k = Suc j" and j: "0 < j"
      using "1.prems" by (cases k; cases "k - 1") auto
    have "n div 10 < 10 ^ j"
      using "1.prems"(1) by (simp add: k less_mult_imp_div_less mult.commute)
    then have "length (toString_nat (n div 10)) \<le> j"
      using "1.IH" [OF False] j by simp
    then show ?thesis
      using False k by (subst toString_nat.simps) simp
  qed
qed

lemma pad_props:
  assumes "n < 10 ^ k" "0 < k"
  shows "length (pad k n) = k" "all_digits (pad k n)" "decimal (pad k n) = int n"
proof -
  have l: "length (toString_nat n) \<le> k" using assms by (rule length_toString_nat)
  show "length (pad k n) = k"
    using l by (simp add: pad_def padStart_def)
  show "all_digits (pad k n)"
    using all_digits_toString_nat [of n] is_digit_0
    by (auto simp: pad_def padStart_def all_digits_def list_all_iff)
  show "decimal (pad k n) = int n"
    by (simp add: pad_def padStart_def decimal_def radix_value_zeros decimal_toString_nat)
qed

lemma radix_value_pos:
  "all_digits ds \<Longrightarrow> ds \<noteq> [] \<Longrightarrow> hd ds \<noteq> CHR ''0'' \<Longrightarrow> 0 < radix_value 10 digit_val ds"
proof (induction ds rule: rev_induct)
  case Nil
  then show ?case by simp
next
  case (snoc c ds)
  show ?case
  proof (cases "ds = []")
    case True
    then have "is_digit c" "c \<noteq> CHR ''0''" using snoc.prems by (simp_all add: all_digits_def)
    then have "0 < digit_val c"
      by (rule digit_val_pos)
    then show ?thesis using True by (simp add: radix_value_def)
  next
    case False
    then have "0 < radix_value 10 digit_val ds"
      using snoc by (simp add: all_digits_def)
    then show ?thesis by (simp add: radix_value_snoc)
  qed
qed

lemma toString_nat_decimal:
  "all_digits ds \<Longrightarrow> ds \<noteq> [] \<Longrightarrow> hd ds \<noteq> CHR ''0'' \<Longrightarrow>
     toString_nat (radix_value 10 digit_val ds) = ds"
proof (induction ds rule: rev_induct)
  case Nil
  then show ?case by simp
next
  case (snoc c ds)
  have c: "is_digit c" using snoc.prems by (simp add: all_digits_def)
  show ?case
  proof (cases "ds = []")
    case True
    then show ?thesis
      using c digit_val_less [OF c]
      by (subst toString_nat.simps) (simp add: radix_value_def digit_char_val)
  next
    case False
    then have ds: "all_digits ds" "hd ds \<noteq> CHR ''0''"
      using snoc.prems by (simp_all add: all_digits_def)
    have pos: "0 < radix_value 10 digit_val ds"
      using ds False by (intro radix_value_pos)
    have ih: "toString_nat (radix_value 10 digit_val ds) = ds"
      using snoc.IH ds False by simp
    have v: "radix_value 10 digit_val (ds @ [c]) = 10 * radix_value 10 digit_val ds + digit_val c"
      by (rule radix_value_snoc)
    have "\<not> radix_value 10 digit_val (ds @ [c]) < 10"
      using pos v by simp
    moreover have "radix_value 10 digit_val (ds @ [c]) div 10 = radix_value 10 digit_val ds"
      "radix_value 10 digit_val (ds @ [c]) mod 10 = digit_val c"
      using digit_val_less [OF c] by (simp_all add: v)
    ultimately show ?thesis
      using ih c by (subst toString_nat.simps) (simp add: digit_char_val)
  qed
qed

lemma split_no_sep: "sep \<notin> set a \<Longrightarrow> split [sep] a = [a]"
proof (induction a)
  case Nil
  show ?case by (subst split.simps) simp
next
  case (Cons x a)
  then show ?case by (subst split.simps) auto
qed

lemma split_at_sep: "sep \<notin> set a \<Longrightarrow> split [sep] (a @ sep # b) = a # split [sep] b"
proof (induction a)
  case Nil
  show ?case by (subst split.simps) simp
next
  case (Cons x a)
  then show ?case by (subst split.simps) auto
qed

section \<open>Reading an ISO string back\<close>

lemma parse_ISO_fields:
  assumes "length Y = 4" "length Mo = 2" "length D = 2" "length H = 2" "length Mi = 2"
    "length S = 2" "length Ms = 3"
  shows "parse_ISO (Y @ ''-'' @ Mo @ ''-'' @ D @ ''T'' @ H @ '':'' @ Mi @ '':'' @ S @ ''.'' @ Ms @ ''Z'') =
     (if all_digits Y \<and> all_digits Mo \<and> all_digits D \<and> all_digits H
            \<and> all_digits Mi \<and> all_digits S \<and> all_digits Ms
            \<and> 1 \<le> decimal Mo \<and> decimal Mo \<le> 12
            \<and> 1 \<le> decimal D \<and> decimal D \<le> DaysInMonth (decimal Y) (decimal Mo)
            \<and> decimal H \<le> 23 \<and> decimal Mi \<le> 59 \<and> decimal S \<le> 59
      then TimeClip (MakeDate (MakeDay (decimal Y) (decimal Mo - 1) (decimal D))
                          (MakeTime (decimal H) (decimal Mi) (decimal S) (decimal Ms)))
      else None)"
proof -
  define s where "s = Y @ ''-'' @ Mo @ ''-'' @ D @ ''T'' @ H @ '':'' @ Mi @ '':'' @ S @ ''.'' @ Ms @ ''Z''"
  have len: "length s = 24" by (simp add: s_def assms)
  have f: "slice s 0 4 = Y" "slice s 5 7 = Mo" "slice s 8 10 = D" "slice s 11 13 = H"
    "slice s 14 16 = Mi" "slice s 17 19 = S" "slice s 20 23 = Ms"
    by (simp_all add: s_def slice_def assms)
  have p: "slice s 4 5 = ''-''" "slice s 7 8 = ''-''" "slice s 10 11 = ''T''"
    "slice s 13 14 = '':''" "slice s 16 17 = '':''" "slice s 19 20 = ''.''" "slice s 23 24 = ''Z''"
    by (simp_all add: s_def slice_def assms)
  show ?thesis
    unfolding s_def [symmetric] parse_ISO_def Let_def f p len by simp
qed

lemma time_value_bounds:
  assumes "0 \<le> YearFromTime t" "YearFromTime t \<le> 9999"
  shows "\<bar>t\<bar> \<le> 8640000000000000"
proof -
  have b: "DayFromYear (YearFromTime t) \<le> Day t" "Day t < DayFromYear (YearFromTime t + 1)"
    using YearFromDay_bounds [of "Day t"] by (simp_all add: YearFromTime_def)
  have "DayFromYear 0 \<le> DayFromYear (YearFromTime t)"
    using assms(1) by (rule DayFromYear_mono)
  moreover have "DayFromYear (YearFromTime t + 1) \<le> DayFromYear 10000"
    using assms(2) by (intro DayFromYear_mono) simp
  moreover have "DayFromYear 0 = - 719528" "DayFromYear 10000 = 2932897"
    by (simp_all add: DayFromYear_def)
  ultimately have d: "- 719528 \<le> Day t" "Day t < 2932897"
    using b by simp_all
  have "t = 86400000 * Day t + t mod 86400000"
    by (simp add: Day_def msPerDay_def)
  moreover have "0 \<le> t mod 86400000" "t mod 86400000 < 86400000"
    by simp_all
  ultimately show ?thesis
    using d by linarith
qed

lemma toISOString_pad:
  assumes "0 \<le> YearFromTime t" "YearFromTime t \<le> 9999"
  shows "toISOString (Some t) =
     Some (pad 4 (nat (YearFromTime t)) @ ''-'' @ pad 2 (nat (MonthFromTime t + 1))
           @ ''-'' @ pad 2 (nat (DateFromTime t)) @ ''T'' @ pad 2 (nat (HourFromTime t))
           @ '':'' @ pad 2 (nat (MinFromTime t)) @ '':'' @ pad 2 (nat (SecFromTime t))
           @ ''.'' @ pad 3 (nat (msFromTime t)) @ ''Z'')"
  using assms by (simp add: toISOString_def pad_def Let_def)

lemma DaysInMonth_le_31: "DaysInMonth y m \<le> 31"
  by (simp add: DaysInMonth_def)

lemma parse_ISO_toISOString:
  assumes "0 \<le> YearFromTime t" "YearFromTime t \<le> 9999"
  shows "\<exists>iso. toISOString (Some t) = Some iso \<and> iso \<noteq> [] \<and> parse_ISO iso = Some t"
proof -
  let ?y = "nat (YearFromTime t)" and ?mo = "nat (MonthFromTime t + 1)"
    and ?d = "nat (DateFromTime t)" and ?h = "nat (HourFromTime t)"
    and ?mi = "nat (MinFromTime t)" and ?s = "nat (SecFromTime t)" and ?ms = "nat (msFromTime t)"
  let ?iso = "pad 4 ?y @ ''-'' @ pad 2 ?mo @ ''-'' @ pad 2 ?d @ ''T'' @ pad 2 ?h
           @ '':'' @ pad 2 ?mi @ '':'' @ pad 2 ?s @ ''.'' @ pad 3 ?ms @ ''Z''"
  have mo: "0 \<le> MonthFromTime t" "MonthFromTime t \<le> 11"
    using MonthFromTime_range [of t] by simp_all
  have d: "1 \<le> DateFromTime t" "DateFromTime t \<le> DaysInMonth (YearFromTime t) (MonthFromTime t + 1)"
    using DateFromTime_range [of t] by simp_all
  have d31: "DateFromTime t \<le> 31"
    using d(2) DaysInMonth_le_31 [of "YearFromTime t" "MonthFromTime t + 1"] by linarith
  have tf: "0 \<le> HourFromTime t" "HourFromTime t \<le> 23" "0 \<le> MinFromTime t" "MinFromTime t \<le> 59"
    "0 \<le> SecFromTime t" "SecFromTime t \<le> 59" "0 \<le> msFromTime t" "msFromTime t \<le> 999"
    using time_fields_range [of t] by simp_all
  have py: "length (pad 4 ?y) = 4" "all_digits (pad 4 ?y)" "decimal (pad 4 ?y) = YearFromTime t"
    using pad_props [of ?y 4] assms by simp_all
  have pmo: "length (pad 2 ?mo) = 2" "all_digits (pad 2 ?mo)" "decimal (pad 2 ?mo) = MonthFromTime t + 1"
    using pad_props [of ?mo 2] mo by simp_all
  have pd: "length (pad 2 ?d) = 2" "all_digits (pad 2 ?d)" "decimal (pad 2 ?d) = DateFromTime t"
    using pad_props [of ?d 2] d(1) d31 by simp_all
  have ph: "length (pad 2 ?h) = 2" "all_digits (pad 2 ?h)" "decimal (pad 2 ?h) = HourFromTime t"
    using pad_props [of ?h 2] tf by simp_all
  have pmi: "length (pad 2 ?mi) = 2" "all_digits (pad 2 ?mi)" "decimal (pad 2 ?mi) = MinFromTime t"
    using pad_props [of ?mi 2] tf by simp_all
  have ps: "length (pad 2 ?s) = 2" "all_digits (pad 2 ?s)" "decimal (pad 2 ?s) = SecFromTime t"
    using pad_props [of ?s 2] tf by simp_all
  have pms: "length (pad 3 ?ms) = 3" "all_digits (pad 3 ?ms)" "decimal (pad 3 ?ms) = msFromTime t"
    using pad_props [of ?ms 3] tf by simp_all
  have clip: "TimeClip t = Some t"
    using time_value_bounds [OF assms] by (simp add: TimeClip_def)
  have "parse_ISO ?iso = Some t"
    unfolding parse_ISO_fields [OF py(1) pmo(1) pd(1) ph(1) pmi(1) ps(1) pms(1)]
    using py pmo pd ph pmi ps pms mo d tf
    by (simp add: MakeDate_fields clip)
  moreover have "toISOString (Some t) = Some ?iso"
    using assms by (rule toISOString_pad)
  ultimately show ?thesis by simp
qed

section \<open>Parsing and formatting dates\<close>

lemma digit_not_slash: "is_digit c \<Longrightarrow> c \<noteq> CHR ''/''"
  by (auto simp: is_digit_def)

lemma split_date:
  assumes "is_digit m1" "is_digit m0" "is_digit d1" "is_digit d0"
    "is_digit y3" "is_digit y2" "is_digit y1" "is_digit y0"
  shows "split ''/'' [m1, m0, CHR ''/'', d1, d0, CHR ''/'', y3, y2, y1, y0] =
           [[m1, m0], [d1, d0], [y3, y2, y1, y0]]"
proof -
  have "split ''/'' ([m1, m0] @ CHR ''/'' # ([d1, d0] @ CHR ''/'' # [y3, y2, y1, y0])) =
      [m1, m0] # split ''/'' ([d1, d0] @ CHR ''/'' # [y3, y2, y1, y0])"
    using assms(1,2) by (intro split_at_sep) (auto dest: digit_not_slash)
  moreover have "split ''/'' ([d1, d0] @ CHR ''/'' # [y3, y2, y1, y0]) =
      [d1, d0] # split ''/'' [y3, y2, y1, y0]"
    using assms(3,4) by (intro split_at_sep) (auto dest: digit_not_slash)
  moreover have "split ''/'' [y3, y2, y1, y0] = [[y3, y2, y1, y0]]"
    using assms(5-8) by (intro split_no_sep) (auto dest: digit_not_slash)
  ultimately show ?thesis by simp
qed

lemma pad2_digits:
  assumes "is_digit a" "is_digit b"
  shows "padStart 2 CHR ''0'' (toString_nat (radix_value 10 digit_val [a, b])) = [a, b]"
proof (cases "a = CHR ''0''")
  case True
  have "radix_value 10 digit_val [a, b] = digit_val b"
    by (simp add: radix_value_def True digit_val_def)
  moreover have "toString_nat (digit_val b) = [b]"
    using digit_val_less [OF assms(2)] assms(2)
    by (subst toString_nat.simps) (simp add: digit_char_val)
  ultimately show ?thesis
    by (simp add: padStart_def True)
next
  case False
  then have "toString_nat (radix_value 10 digit_val [a, b]) = [a, b]"
    using assms by (intro toString_nat_decimal) (simp_all add: all_digits_def)
  then show ?thesis by (simp add: padStart_def)
qed

lemma DayFromYear_1900_2101: "DayFromYear 1899 = - 25932" "DayFromYear 1900 = - 25567"
  "DayFromYear 2101 = 47847" "DayFromYear 2102 = 48212"
  by (simp_all add: DayFromYear_def)

text \<open>
  The three range checks of \<open>parseDate\<close>: a date whose month is outside 1..12, whose day
  is outside 1..31 or whose year is outside 1900..2100 gives \<open>null\<close>.
\<close>

lemma all_digits_no_slash: "all_digits a \<Longrightarrow> CHR ''/'' \<notin> set a"
  by (auto simp: all_digits_def list_all_iff dest: digit_not_slash)

lemma split_three:
  assumes "all_digits a" "all_digits b" "all_digits c"
  shows "split ''/'' (a @ ''/'' @ b @ ''/'' @ c) = [a, b, c]"
proof -
  have "split ''/'' (a @ CHR ''/'' # (b @ CHR ''/'' # c)) = a # split ''/'' (b @ CHR ''/'' # c)"
    using assms(1) by (intro split_at_sep all_digits_no_slash)
  moreover have "split ''/'' (b @ CHR ''/'' # c) = b # split ''/'' c"
    using assms(2) by (intro split_at_sep all_digits_no_slash)
  moreover have "split ''/'' c = [c]"
    using assms(3) by (intro split_no_sep all_digits_no_slash)
  ultimately show ?thesis by simp
qed

lemma parseDate_rejects_out_of_range:
  assumes "all_digits a" "a \<noteq> []" "all_digits b" "b \<noteq> []" "all_digits c" "c \<noteq> []"
    and "decimal a < 1 \<or> 12 < decimal a \<or> decimal b < 1 \<or> 31 < decimal b
         \<or> decimal c < 1900 \<or> 2100 < decimal c"
  shows "parseDate tz (a @ ''/'' @ b @ ''/'' @ c) = None"
  unfolding parseDate_def split_three [OF assms(1,3,5)] Let_def
  using assms(2,7)
  by (auto simp: element_def ToString_def parseInt_digits [OF assms(1,2)]
      parseInt_digits [OF assms(3,4)] parseInt_digits [OF assms(5,6)])

lemma parseDate_rejects_examples:
  "parseDate tz ''13/01/2020'' = None" "parseDate tz ''00/15/2020'' = None"
  "parseDate tz ''01/32/2020'' = None" "parseDate tz ''01/15/1899'' = None"
  using parseDate_rejects_out_of_range [of "''13''" "''01''" "''2020''" tz]
    parseDate_rejects_out_of_range [of "''00''" "''15''" "''2020''" tz]
    parseDate_rejects_out_of_range [of "''01''" "''32''" "''2020''" tz]
    parseDate_rejects_out_of_range [of "''01''" "''15''" "''1899''" tz]
  by (simp_all add: all_digits_def is_digit_def decimal_def radix_value_def digit_val_def)

text \<open>
  C2 (as amended). Let \<open>s\<close> be a date in the form \<open>MM/DD/YYYY\<close>: two digits, a slash,
  two digits, a slash and four digits, with the month in 1..12, the day in
  1..\<open>DaysInMonth\<close> of that year and month, and the year in 1900..2100. Let \<open>local\<close> be
  the local midnight that begins that day and \<open>UTC tz local\<close> the instant the host makes
  of it. If the offset in force at that instant is the offset with which the host read
  \<open>local\<close>, or is ahead of it by less than a day (and that offset is at most a day),
  then \<open>parseDate\<close> returns an ISO string and \<open>formatDate\<close> of that string is \<open>s\<close>
  again, whatever the implementation does with strings that are not in the date-time
  format. A zone with a fixed offset of at most a day meets the condition on every day.
\<close>

theorem parseDate_formatDate_roundtrip:
  assumes s: "s = [m1, m0, CHR ''/'', d1, d0, CHR ''/'', y3, y2, y1, y0]"
    and digits: "is_digit m1" "is_digit m0" "is_digit d1" "is_digit d0"
      "is_digit y3" "is_digit y2" "is_digit y1" "is_digit y0"
    and month: "1 \<le> decimal [m1, m0]" "decimal [m1, m0] \<le> 12"
    and day: "1 \<le> decimal [d1, d0]"
      "decimal [d1, d0] \<le> DaysInMonth (decimal [y3, y2, y1, y0]) (decimal [m1, m0])"
    and year: "1900 \<le> decimal [y3, y2, y1, y0]" "decimal [y3, y2, y1, y0] \<le> 2100"
    and local: "local = MakeDate (MakeDay (decimal [y3, y2, y1, y0]) (decimal [m1, m0] - 1)
                                    (decimal [d1, d0])) (MakeTime 0 0 0 0)"
    and zone: "\<bar>tz local False\<bar> \<le> msPerDay"
      "tz local False \<le> tz (UTC tz local) True"
      "tz (UTC tz local) True < tz local False + msPerDay"
  shows "parseDate tz s \<noteq> None \<and> formatDate fallback tz (parseDate tz s) = s"
proof -
  let ?m = "decimal [m1, m0]" and ?d = "decimal [d1, d0]" and ?y = "decimal [y3, y2, y1, y0]"
  define Dn where "Dn = DayFromYear ?y + DayOfYearOfMonth ?y (?m - 1) + ?d - 1"
  define off where "off = tz (Dn * msPerDay) False"
  define t where "t = Dn * msPerDay - off"
  define r where "r = tz t True - off"
  have pm: "parseInt [m1, m0] = Some ?m" and pd: "parseInt [d1, d0] = Some ?d"
    and py: "parseInt [y3, y2, y1, y0] = Some ?y"
    using digits by (simp_all add: parseInt_digits all_digits_def)
  have d31: "?d \<le> 31"
    using day(2) DaysInMonth_le_31 [of ?y ?m] by linarith
  have md: "(?m - 1) div 12 = 0" "(?m - 1) mod 12 = ?m - 1"
    using month by simp_all
  have mk: "MakeDay ?y (?m - 1) ?d = Dn"
    by (simp add: MakeDay_def md Let_def Dn_def)
  have loc: "local = Dn * msPerDay"
    by (simp add: local mk MakeDate_def MakeTime_def)
  have o: "tz local False = off"
    by (simp add: loc off_def)
  have u: "UTC tz local = t"
    by (simp add: UTC_def o t_def) (simp add: loc)
  have z: "\<bar>off\<bar> \<le> msPerDay" "0 \<le> r" "r < msPerDay"
    using zone unfolding u o by (simp_all add: r_def)
  have rg: "0 \<le> DayOfYearOfMonth ?y (?m - 1) + ?d - 1"
    "DayOfYearOfMonth ?y (?m - 1) + ?d - 1 < DaysInYear ?y"
    using day_within_year_range [of "?m - 1" ?d ?y] month day by simp_all
  have "DayFromYear 1900 \<le> DayFromYear ?y" "DayFromYear (?y + 1) \<le> DayFromYear 2101"
    using year by (auto intro: DayFromYear_mono)
  then have D: "- 25567 \<le> Dn" "Dn < 47847"
    using rg by (simp_all add: DayFromYear_1900_2101 DayFromYear_Suc Dn_def)
  have clip: "TimeClip t = Some t"
    using D z(1) by (simp add: TimeClip_def t_def msPerDay_def)
  have "new_Date_components tz ?y (?m - 1) ?d = TimeClip (UTC tz local)"
    using year by (simp add: new_Date_components_def Let_def local)
  then have nd: "new_Date_components tz ?y (?m - 1) ?d = Some t"
    by (simp add: u clip)
  have dayt: "DayFromYear 1899 \<le> Day t" "Day t < DayFromYear 2102"
  proof -
    have "(Dn - 1) * msPerDay \<le> t" "t < (Dn + 2) * msPerDay"
      using z(1) by (simp_all add: t_def msPerDay_def algebra_simps)
    then have "Dn - 1 \<le> Day t" "Day t < Dn + 2"
      unfolding Day_def msPerDay_def
      by (simp_all add: zdiv_mono1 pos_imp_zdiv_nonneg_iff div_less_iff_less_mult
          less_eq_div_iff_mult_less_eq mult.commute)
    then show "DayFromYear 1899 \<le> Day t" "Day t < DayFromYear 2102"
      using D by (simp_all add: DayFromYear_1900_2101)
  qed
  have yt: "0 \<le> YearFromTime t" "YearFromTime t \<le> 9999"
    using YearFromDay_range [OF dayt] by (simp_all add: YearFromTime_def)
  obtain iso where iso: "toISOString (Some t) = Some iso" "iso \<noteq> []" "parse_ISO iso = Some t"
    using parse_ISO_toISOString [OF yt] by blast
  have parse: "parseDate tz s = Some iso"
    unfolding parseDate_def s split_date [OF digits]
    using month day d31 year
    by (simp add: element_def ToString_def pm pd py nd iso Let_def)
  have lt: "LocalTime tz t = Dn * msPerDay + r"
    by (simp add: LocalTime_def r_def t_def)
  have "Day (LocalTime tz t) = Dn"
    unfolding lt using z(2,3) by (rule Day_of)
  then have fields: "YearFromTime (LocalTime tz t) = ?y"
    "MonthFromTime (LocalTime tz t) = ?m - 1" "DateFromTime (LocalTime tz t) = ?d"
    using fields_of_day [of "?m - 1" ?d ?y "LocalTime tz t"] month day
    by (simp_all add: Dn_def)
  have y3: "y3 \<noteq> CHR ''0''"
  proof
    assume "y3 = CHR ''0''"
    then have "?y = int (100 * digit_val y2 + 10 * digit_val y1 + digit_val y0)"
      by (simp add: decimal_def radix_value_def digit_val_def)
    then show False
      using year(1) digit_val_less [OF digits(6)] digit_val_less [OF digits(7)]
        digit_val_less [OF digits(8)] by linarith
  qed
  have sm: "padStart 2 CHR ''0'' (toString_nat (nat ?m)) = [m1, m0]"
    and sd: "padStart 2 CHR ''0'' (toString_nat (nat ?d)) = [d1, d0]"
    using pad2_digits digits by (simp_all add: decimal_def)
  have sy: "toString_nat (nat ?y) = [y3, y2, y1, y0]"
    using toString_nat_decimal [of "[y3, y2, y1, y0]"] digits y3
    by (simp add: decimal_def all_digits_def)
  have "formatDate fallback tz (Some iso) = s"
    using month day year
    by (simp add: formatDate_def iso Date_parse_def getMonth_def getDate_def getFullYear_def
        fields Number_toString_def sm sd sy s Let_def)
  then show ?thesis
    by (simp add: parse)
qed

lemma example_midnights:
  "MakeDate (MakeDay 2024 1 29) (MakeTime 0 0 0 0) = 1709164800000"
  "MakeDate (MakeDay 2011 11 29) (MakeTime 0 0 0 0) = 1325116800000"
  "MakeDate (MakeDay 2018 10 4) (MakeTime 0 0 0 0) = 1541289600000"
  by code_simp+

text \<open>
  The round trip in a zone six hours behind UTC, in \<open>Pacific/Apia\<close> on the day before
  the one it skipped, and in \<open>America/Sao_Paulo\<close> on a day whose midnight was skipped:
  there the host reads \<open>11/04/2018\<close> as 01:00 of that day.
\<close>

theorem parseDate_formatDate_roundtrip_witness:
  "parseDate (fixed_zone (- 21600000)) ''02/29/2024'' \<noteq> None
   \<and> formatDate (\<lambda>s. None) (fixed_zone (- 21600000))
        (parseDate (fixed_zone (- 21600000)) ''02/29/2024'') = ''02/29/2024''
   \<and> parseDate Pacific_Apia ''12/29/2011'' \<noteq> None
   \<and> formatDate (\<lambda>s. None) Pacific_Apia (parseDate Pacific_Apia ''12/29/2011'')
       = ''12/29/2011''
   \<and> parseDate America_Sao_Paulo ''11/04/2018'' \<noteq> None
   \<and> formatDate (\<lambda>s. None) America_Sao_Paulo (parseDate America_Sao_Paulo ''11/04/2018'')
       = ''11/04/2018''"
  using parseDate_formatDate_roundtrip
      [where s = "''02/29/2024''" and ?m1.0 = "CHR ''0''" and ?m0.0 = "CHR ''2''"
        and ?d1.0 = "CHR ''2''" and ?d0.0 = "CHR ''9''" and ?y3.0 = "CHR ''2''"
        and ?y2.0 = "CHR ''0''" and ?y1.0 = "CHR ''2''" and ?y0.0 = "CHR ''4''"
        and local = 1709164800000 and tz = "fixed_zone (- 21600000)"
        and fallback = "\<lambda>s. None"]
    parseDate_formatDate_roundtrip
      [where s = "''12/29/2011''" and ?m1.0 = "CHR ''1''" and ?m0.0 = "CHR ''2''"
        and ?d1.0 = "CHR ''2''" and ?d0.0 = "CHR ''9''" and ?y3.0 = "CHR ''2''"
        and ?y2.0 = "CHR ''0''" and ?y1.0 = "CHR ''1''" and ?y0.0 = "CHR ''1''"
        and local = 1325116800000 and tz = Pacific_Apia and fallback = "\<lambda>s. None"]
    parseDate_formatDate_roundtrip
      [where s = "''11/04/2018''" and ?m1.0 = "CHR ''1''" and ?m0.0 = "CHR ''1''"
        and ?d1.0 = "CHR ''0''" and ?d0.0 = "CHR ''4''" and ?y3.0 = "CHR ''2''"
        and ?y2.0 = "CHR ''0''" and ?y1.0 = "CHR ''1''" and ?y0.0 = "CHR ''8''"
        and local = 1541289600000 and tz = America_Sao_Paulo and fallback = "\<lambda>s. None"]
  by (simp add: is_digit_def decimal_def radix_value_def digit_val_def DaysInMonth_def
      DaysInYear_def example_midnights fixed_zone_def Pacific_Apia_def America_Sao_Paulo_def
      UTC_def msPerDay_def)

text \<open>
  In \<open>Pacific/Apia\<close> the date \<open>12/30/2011\<close>, a valid date of the calendar, does not come
  back: its local midnight was skipped, the host reads it as the instant 30 December
  10:00 UTC, and at that instant the local date is 31 December.
\<close>

lemma Apia_parseDate:
  "parseDate Pacific_Apia ''12/30/2011'' = Some ''2011-12-30T10:00:00.000Z''"
  by code_simp

lemma Apia_formatDate:
  "formatDate (\<lambda>s. None) Pacific_Apia (Some ''2011-12-30T10:00:00.000Z'') = ''12/31/2011''"
proof -
  have p: "parse_ISO ''2011-12-30T10:00:00.000Z'' = Some 1325239200000"
    by code_simp
  have l: "LocalTime Pacific_Apia 1325239200000 = 1325289600000"
    by (simp add: LocalTime_def Pacific_Apia_def)
  have "Day 1325289600000 = DayFromYear 2011 + DayOfYearOfMonth 2011 11 + 31 - 1"
    by code_simp
  then have f: "YearFromTime 1325289600000 = 2011" "MonthFromTime 1325289600000 = 11"
    "DateFromTime 1325289600000 = 31"
    using fields_of_day [of 11 31 2011 1325289600000] by (simp_all add: DaysInMonth_def)
  have n: "padStart 2 CHR ''0'' (toString_nat 12) = ''12''"
    "padStart 2 CHR ''0'' (toString_nat 31) = ''31''" "toString_nat 2011 = ''2011''"
    by code_simp+
  show ?thesis
    by (simp add: formatDate_def Date_parse_def p getMonth_def getDate_def getFullYear_def
        l f Number_toString_def n Let_def)
qed

theorem parseDate_formatDate_Apia_counterexample:
  "DaysInMonth 2011 12 = 31
   \<and> parseDate Pacific_Apia ''12/30/2011'' = Some ''2011-12-30T10:00:00.000Z''
   \<and> formatDate (\<lambda>s. None) Pacific_Apia (parseDate Pacific_Apia ''12/30/2011'')
       = ''12/31/2011''"
  by (simp add: Apia_parseDate Apia_formatDate DaysInMonth_def)

text \<open>
  C1. A date string that names a day that does not exist should give \<open>null\<close>. For
  \<open>02/30/2024\<close> the components pass the three range checks, \<open>new Date(2024, 1, 30)\<close>
  is the valid date 1 March 2024, and \<open>parseDate\<close> returns its ISO string (shown in UTC
  and in a zone six hours behind it); formatted again the date reads \<open>03/01/2024\<close>.
\<close>

theorem parseDate_accepts_feb_30:
  "parseDate (fixed_zone 0) ''02/30/2024'' = Some ''2024-03-01T00:00:00.000Z''
   \<and> parseDate (fixed_zone (- 21600000)) ''02/30/2024'' = Some ''2024-03-01T06:00:00.000Z''
   \<and> formatDate (\<lambda>s. None) (fixed_zone 0) (parseDate (fixed_zone 0) ''02/30/2024'')
       = ''03/01/2024''"
  by code_simp

section \<open>Authorization of the mutating attorney endpoints\<close>

lemma DELETE_no_token:
  assumes "truthy (query_id req)" "\<not> truthy (cookie_token (cookie req))"
  shows "DELETE e req d = (NextResponse_json (Message ''Unauthorized'') 401, d)"
  using assms by (simp add: DELETE_def Let_def)

lemma DELETE_checked:
  assumes "truthy (query_id req)" "truthy (cookie_token (cookie req))"
    and "jwtVerify e (ToString (cookie_token (cookie req))) = Inr payload"
    and "fault e FindAttorney = None"
    and "attorney_findUnique d (ToString (query_id req)) = Some attorney"
  shows "DELETE e req d =
     (if toUpperCase (if truthy (jwt_role payload) then ToString (jwt_role payload) else [])
           \<noteq> ''ADMIN'' \<and> jwt_userId payload \<noteq> Some (a_userId attorney)
      then (NextResponse_json (Message ''Unauthorized'') 403, d)
      else (case transaction e (DELETE_transaction (ToString (query_id req)) attorney) d of
              (Inl err, d') \<Rightarrow> (NextResponse_json (Message ''Failed to delete attorney'') 500, d')
            | (Inr u, d') \<Rightarrow>
                (NextResponse_json (Message ''Attorney deleted successfully'') 200, d')))"
  using assms by (auto simp: DELETE_def Let_def)

lemma PUT_unauthorized:
  assumes "truthy (query_id req)"
  shows "PUT e req d = (NextResponse_json (Message ''Unauthorized'') 401, d)"
  using assms by (simp add: PUT_def Let_def promise_property_def)

text \<open>
  C4 (as amended). A request with no \<open>id\<close> in its query is answered 400 by \<open>DELETE\<close>
  and by \<open>PUT\<close>, whatever its credential, and changes nothing. For a request with an
  \<open>id\<close>: \<open>DELETE\<close> answers 401 when there is no token cookie and changes nothing. With
  a verified credential and an attorney that the lookup finds, a caller whose role is
  not \<open>ADMIN\<close> (in upper case) and whose \<open>userId\<close> is not the attorney's is answered
  403 and changes nothing; an administrator or the owner is answered neither 401 nor
  403, and 200 exactly when the deleting transaction commits. \<open>PUT\<close> answers 401 when
  there is no bearer token, and also when the credential is not \<open>ADMIN\<close>, the owner of
  the record included; it changes nothing.
\<close>

theorem attorney_mutation_authorization:
  fixes reqD :: "unit request" and reqP :: "attorney_update request"
  shows
    "(\<not> truthy (query_id reqD) \<longrightarrow>
        status (fst (DELETE e reqD d)) = 400 \<and> snd (DELETE e reqD d) = d)
     \<and> (truthy (query_id reqD) \<and> \<not> truthy (cookie_token (cookie reqD)) \<longrightarrow>
        status (fst (DELETE e reqD d)) = 401 \<and> snd (DELETE e reqD d) = d)
     \<and> (truthy (query_id reqD) \<and> truthy (cookie_token (cookie reqD))
          \<and> jwtVerify e (ToString (cookie_token (cookie reqD))) = Inr payload
          \<and> fault e FindAttorney = None
          \<and> attorney_findUnique d (ToString (query_id reqD)) = Some attorney \<longrightarrow>
        (if toUpperCase (if truthy (jwt_role payload) then ToString (jwt_role payload) else [])
              = ''ADMIN'' \<or> jwt_userId payload = Some (a_userId attorney)
         then status (fst (DELETE e reqD d)) \<noteq> 401 \<and> status (fst (DELETE e reqD d)) \<noteq> 403
              \<and> (status (fst (DELETE e reqD d)) = 200 \<longleftrightarrow>
                   (\<exists>d'. transaction e (DELETE_transaction (ToString (query_id reqD)) attorney) d
                            = (Inr (), d')))
         else status (fst (DELETE e reqD d)) = 403 \<and> snd (DELETE e reqD d) = d))
     \<and> (\<not> truthy (query_id reqP) \<longrightarrow>
        status (fst (PUT e reqP d)) = 400 \<and> snd (PUT e reqP d) = d)
     \<and> (truthy (query_id reqP)
          \<and> \<not> truthy (case authorization reqP of None \<Rightarrow> None
                      | Some header \<Rightarrow> element (split '' '' header) 1) \<longrightarrow>
        status (fst (PUT e reqP d)) = 401 \<and> snd (PUT e reqP d) = d)
     \<and> (truthy (query_id reqP)
          \<and> jwtVerify e (ToString (case authorization reqP of None \<Rightarrow> None
                      | Some header \<Rightarrow> element (split '' '' header) 1)) = Inr payload
          \<and> jwt_role payload \<noteq> Some ''ADMIN'' \<longrightarrow>
        status (fst (PUT e reqP d)) = 401 \<and> snd (PUT e reqP d) = d)"
proof -
  have put0: "\<not> truthy (query_id reqP) \<longrightarrow>
        status (fst (PUT e reqP d)) = 400 \<and> snd (PUT e reqP d) = d"
    by (simp add: PUT_def NextResponse_json_def)
  have put: "truthy (query_id reqP) \<longrightarrow>
        status (fst (PUT e reqP d)) = 401 \<and> snd (PUT e reqP d) = d"
    using PUT_unauthorized [of reqP e d] by (simp add: NextResponse_json_def)
  have del0: "\<not> truthy (query_id reqD) \<longrightarrow>
        status (fst (DELETE e reqD d)) = 400 \<and> snd (DELETE e reqD d) = d"
    by (simp add: DELETE_def NextResponse_json_def)
  have del1: "truthy (query_id reqD) \<and> \<not> truthy (cookie_token (cookie reqD)) \<longrightarrow>
        status (fst (DELETE e reqD d)) = 401 \<and> snd (DELETE e reqD d) = d"
    using DELETE_no_token [of reqD e d] by (simp add: NextResponse_json_def)
  have del2: "truthy (query_id reqD) \<and> truthy (cookie_token (cookie reqD))
          \<and> jwtVerify e (ToString (cookie_token (cookie reqD))) = Inr payload
          \<and> fault e FindAttorney = None
          \<and> attorney_findUnique d (ToString (query_id reqD)) = Some attorney \<longrightarrow>
        (if toUpperCase (if truthy (jwt_role payload) then ToString (jwt_role payload) else [])
              = ''ADMIN'' \<or> jwt_userId payload = Some (a_userId attorney)
         then status (fst (DELETE e reqD d)) \<noteq> 401 \<and> status (fst (DELETE e reqD d)) \<noteq> 403
              \<and> (status (fst (DELETE e reqD d)) = 200 \<longleftrightarrow>
                   (\<exists>d'. transaction e (DELETE_transaction (ToString (query_id reqD)) attorney) d
                            = (Inr (), d')))
         else status (fst (DELETE e reqD d)) = 403 \<and> snd (DELETE e reqD d) = d)"
  proof (intro impI, elim conjE)
    assume a: "truthy (query_id reqD)" "truthy (cookie_token (cookie reqD))"
      "jwtVerify e (ToString (cookie_token (cookie reqD))) = Inr payload"
      "fault e FindAttorney = None"
      "attorney_findUnique d (ToString (query_id reqD)) = Some attorney"
    show "if toUpperCase (if truthy (jwt_role payload) then ToString (jwt_role payload) else [])
              = ''ADMIN'' \<or> jwt_userId payload = Some (a_userId attorney)
         then status (fst (DELETE e reqD d)) \<noteq> 401 \<and> status (fst (DELETE e reqD d)) \<noteq> 403
              \<and> (status (fst (DELETE e reqD d)) = 200 \<longleftrightarrow>
                   (\<exists>d'. transaction e (DELETE_transaction (ToString (query_id reqD)) attorney) d
                            = (Inr (), d')))
         else status (fst (DELETE e reqD d)) = 403 \<and> snd (DELETE e reqD d) = d"
      unfolding DELETE_checked [OF a]
      by (auto simp: NextResponse_json_def split: prod.splits sum.splits)
  qed
  show ?thesis
    using put0 put del0 del1 del2 by blast
qed

section \<open>Deleting an attorney\<close>

lemma attorney_delete_Inr:
  "attorney_delete i d = Inr d' \<longleftrightarrow>
     attorney_findUnique d i \<noteq> None \<and> d' = d\<lparr>attorneys := filter (\<lambda>a. a_id a \<noteq> i) (attorneys d)\<rparr>"
  by (auto simp: attorney_delete_def)

lemma user_delete_Inr:
  "user_delete i d = Inr d' \<longleftrightarrow>
     user_findUnique_id d i \<noteq> None \<and> d' = d\<lparr>users := filter (\<lambda>u. u_id u \<noteq> i) (users d)\<rparr>"
  by (auto simp: user_delete_def)

lemma DELETE_transaction_Inr:
  assumes "DELETE_transaction i attorney d = Inr (u, d')"
  shows "attorneys d' = filter (\<lambda>a. a_id a \<noteq> i) (attorneys d)"
    and "caseManagers d' = filter (\<lambda>c. cm_attorneyId c \<noteq> i) (caseManagers d)"
    and "users d' = filter (\<lambda>u. u_id u \<noteq> a_userId attorney) (users d)"
    and "tasks d' = tasks d"
proof -
  obtain d2 where d2: "attorney_delete i (caseManager_deleteMany i d) = Inr d2"
    and d3: "user_delete (a_userId attorney) d2 = Inr d'"
    using assms by (auto simp: DELETE_transaction_def split: sum.splits)
  have e2: "d2 = (caseManager_deleteMany i d)\<lparr>attorneys :=
      filter (\<lambda>a. a_id a \<noteq> i) (attorneys (caseManager_deleteMany i d))\<rparr>"
    using d2 by (simp add: attorney_delete_Inr)
  have e3: "d' = d2\<lparr>users := filter (\<lambda>u. u_id u \<noteq> a_userId attorney) (users d2)\<rparr>"
    using d3 by (simp add: user_delete_Inr)
  show "attorneys d' = filter (\<lambda>a. a_id a \<noteq> i) (attorneys d)"
    and "caseManagers d' = filter (\<lambda>c. cm_attorneyId c \<noteq> i) (caseManagers d)"
    and "users d' = filter (\<lambda>u. u_id u \<noteq> a_userId attorney) (users d)"
    and "tasks d' = tasks d"
    by (simp_all add: e3 e2 caseManager_deleteMany_def)
qed

lemma transaction_Inr:
  "transaction e f d = (Inr r, d') \<longleftrightarrow> fault e Transaction = None \<and> f d = Inr (r, d')"
  by (auto simp: transaction_def split: option.splits sum.splits)

lemma transaction_Inl:
  "transaction e f d = (Inl err, d') \<Longrightarrow> d' = d"
  by (auto simp: transaction_def split: option.splits sum.splits)

lemma DELETE_no_id:
  assumes "\<not> truthy (query_id req)"
  shows "DELETE e req d = (NextResponse_json (Message ''Attorney ID is required'') 400, d)"
  using assms by (simp add: DELETE_def)

lemma DELETE_bad_token:
  assumes "truthy (query_id req)" "truthy (cookie_token (cookie req))"
    and "jwtVerify e (ToString (cookie_token (cookie req))) = Inl err"
  shows "DELETE e req d = (NextResponse_json (Message ''Failed to delete attorney'') 500, d)"
  using assms by (simp add: DELETE_def Let_def)

lemma DELETE_find_fault:
  assumes "truthy (query_id req)" "truthy (cookie_token (cookie req))"
    and "jwtVerify e (ToString (cookie_token (cookie req))) = Inr payload"
    and "fault e FindAttorney = Some err"
  shows "DELETE e req d = (NextResponse_json (Message ''Failed to delete attorney'') 500, d)"
  using assms by (simp add: DELETE_def Let_def)

lemma DELETE_not_found:
  assumes "truthy (query_id req)" "truthy (cookie_token (cookie req))"
    and "jwtVerify e (ToString (cookie_token (cookie req))) = Inr payload"
    and "fault e FindAttorney = None"
    and "attorney_findUnique d (ToString (query_id req)) = None"
  shows "DELETE e req d = (NextResponse_json (Message ''Attorney not found'') 404, d)"
  using assms by (simp add: DELETE_def Let_def)

lemma DELETE_result:
  assumes "DELETE e req d = (r, d')"
  shows "(status r = 200 \<and> (\<exists>attorney. attorney_findUnique d (ToString (query_id req)) = Some attorney
            \<and> transaction e (DELETE_transaction (ToString (query_id req)) attorney) d = (Inr (), d')))
         \<or> (status r \<noteq> 200 \<and> d' = d)"
proof (cases "truthy (query_id req)")
  case False
  then show ?thesis
    using assms by (auto simp: DELETE_no_id NextResponse_json_def)
next
  case i: True
  show ?thesis
  proof (cases "truthy (cookie_token (cookie req))")
    case False
    then show ?thesis
      using assms i by (auto simp: DELETE_no_token NextResponse_json_def)
  next
    case t: True
    show ?thesis
    proof (cases "jwtVerify e (ToString (cookie_token (cookie req)))")
      case (Inl err)
      then show ?thesis
        using assms by (auto simp: DELETE_bad_token [OF i t] NextResponse_json_def)
    next
      case (Inr payload)
      show ?thesis
      proof (cases "fault e FindAttorney")
        case (Some err)
        then show ?thesis
          using assms by (auto simp: DELETE_find_fault [OF i t Inr] NextResponse_json_def)
      next
        case None
        show ?thesis
        proof (cases "attorney_findUnique d (ToString (query_id req))")
          case n: None
          then show ?thesis
            using assms by (auto simp: DELETE_not_found [OF i t Inr None] NextResponse_json_def)
        next
          case (Some attorney)
          obtain x d1 where tr:
            "transaction e (DELETE_transaction (ToString (query_id req)) attorney) d = (x, d1)"
            by (cases "transaction e (DELETE_transaction (ToString (query_id req)) attorney) d")
          show ?thesis
          proof (cases x)
            case (Inl err)
            then have "d1 = d" using tr transaction_Inl by blast
            then show ?thesis
              using assms Inl tr
              unfolding DELETE_checked [OF i t Inr None Some]
              by (auto simp: NextResponse_json_def split: if_splits)
          next
            case (Inr u)
            then show ?thesis
              using assms tr Some
              unfolding DELETE_checked [OF i t \<open>jwtVerify e (ToString (cookie_token (cookie req))) = Inr payload\<close> None Some]
              by (auto simp: NextResponse_json_def split: if_splits)
          qed
        qed
      qed
    qed
  qed
qed

lemma references_ok_filter:
  assumes "references_ok d"
    and "attorneys d' = filter (\<lambda>a. a_id a \<noteq> i) (attorneys d)"
    and "caseManagers d' = filter (\<lambda>c. cm_attorneyId c \<noteq> i) (caseManagers d)"
  shows "references_ok d'"
proof -
  have "\<exists>a \<in> set (attorneys d'). a_id a = cm_attorneyId c" if c: "c \<in> set (caseManagers d')" for c
  proof -
    have "c \<in> set (caseManagers d)" and ne: "cm_attorneyId c \<noteq> i"
      using c by (simp_all add: assms(3))
    then obtain a where "a \<in> set (attorneys d)" "a_id a = cm_attorneyId c"
      using assms(1) by (auto simp: references_ok_def list_all_iff list_ex_iff)
    then show ?thesis
      using ne by (auto simp: assms(2))
  qed
  then show ?thesis
    by (simp add: references_ok_def list_all_iff list_ex_iff)
qed

text \<open>
  C5. When \<open>DELETE\<close> answers 200, the attorney row, every case manager whose
  \<open>attorneyId\<close> is that attorney's and the user the attorney is linked to are gone, and
  nothing else has changed; with any other answer the tables are as they were. So no
  partial deletion is left behind, and if every case manager referred to an existing
  attorney before the request, that is still so after it.
\<close>

theorem DELETE_cascade:
  assumes "DELETE e req d = (r, d')"
  shows "(status r = 200 \<longrightarrow>
           (\<exists>attorney. attorney_findUnique d (ToString (query_id req)) = Some attorney
              \<and> attorneys d' = filter (\<lambda>a. a_id a \<noteq> ToString (query_id req)) (attorneys d)
              \<and> caseManagers d' =
                  filter (\<lambda>c. cm_attorneyId c \<noteq> ToString (query_id req)) (caseManagers d)
              \<and> users d' = filter (\<lambda>u. u_id u \<noteq> a_userId attorney) (users d)
              \<and> tasks d' = tasks d
              \<and> list_all (\<lambda>u. u_id u \<noteq> a_userId attorney) (users d'))
           \<and> list_all (\<lambda>a. a_id a \<noteq> ToString (query_id req)) (attorneys d')
           \<and> list_all (\<lambda>c. cm_attorneyId c \<noteq> ToString (query_id req)) (caseManagers d'))
       \<and> (status r \<noteq> 200 \<longrightarrow> d' = d)
       \<and> (references_ok d \<longrightarrow> references_ok d')"
proof -
  from DELETE_result [OF assms] show ?thesis
  proof (elim disjE conjE exE)
    fix attorney
    assume s: "status r = 200"
      and a: "attorney_findUnique d (ToString (query_id req)) = Some attorney"
      and t: "transaction e (DELETE_transaction (ToString (query_id req)) attorney) d = (Inr (), d')"
    have tx: "DELETE_transaction (ToString (query_id req)) attorney d = Inr ((), d')"
      using t by (simp add: transaction_Inr)
    note eqs = DELETE_transaction_Inr [OF tx]
    have "references_ok d \<longrightarrow> references_ok d'"
      using references_ok_filter [OF _ eqs(1) eqs(2)] by blast
    then show ?thesis
      using s a eqs by (simp add: list_all_iff)
  next
    assume "status r \<noteq> 200" "d' = d"
    then show ?thesis by simp
  qed
qed

section \<open>Updating an attorney\<close>

lemma PUT_answers:
  "snd (PUT e req d) = d \<and> status (fst (PUT e req d)) \<noteq> 200"
proof (cases "truthy (query_id req)")
  case True
  then show ?thesis
    by (simp add: PUT_unauthorized NextResponse_json_def)
next
  case False
  then show ?thesis
    by (simp add: PUT_def NextResponse_json_def)
qed

text \<open>
  C6. A \<open>PUT\<close> whose payload holds a password should replace the password hash of the
  linked user. \<open>PUT\<close> reads \<open>role\<close> from the Promise that \<open>jwtVerify\<close> returns, without
  awaiting it: a Promise has no such property, the comparison with \<open>ADMIN\<close> fails for
  every token, and the handler answers 401 before it reads the payload. The
  administrator's request with the password \<open>pw\<close> for the attorney \<open>a1\<close> is answered
  401 and the tables stay as they were; and no request at all is answered 200 or changes
  a table, so the transaction that updates the profile and the password is never run.
\<close>

theorem PUT_never_updates:
  "jwtVerify example_admin_env ''ADM'' = Inr \<lparr>jwt_role = Some ''ADMIN'', jwt_userId = Some ''u0''\<rparr>
   \<and> upd_password example_update = Some ''pw''
   \<and> attorney_findUnique example_db ''a1'' = Some example_attorney
   \<and> PUT example_admin_env
        ((example_request example_update)\<lparr>authorization := Some ''Bearer ADM''\<rparr>) example_db
      = (\<lparr>status = 401, body = Message ''Unauthorized''\<rparr>, example_db)
   \<and> (\<forall>e req d. snd (PUT e req d) = d \<and> status (fst (PUT e req d)) \<noteq> 200)"
proof -
  have "jwtVerify example_admin_env ''ADM''
      = Inr \<lparr>jwt_role = Some ''ADMIN'', jwt_userId = Some ''u0''\<rparr>"
    by (simp add: example_admin_env_def)
  moreover have "upd_password example_update = Some ''pw''"
    by (simp add: example_update_def)
  moreover have "attorney_findUnique example_db ''a1'' = Some example_attorney"
    by (simp add: attorney_findUnique_def example_db_def example_attorney_def)
  moreover have "PUT example_admin_env
        ((example_request example_update)\<lparr>authorization := Some ''Bearer ADM''\<rparr>) example_db
      = (\<lparr>status = 401, body = Message ''Unauthorized''\<rparr>, example_db)"
    by (simp add: PUT_unauthorized example_request_def truthy_def NextResponse_json_def)
  ultimately show ?thesis
    using PUT_answers by simp
qed

section \<open>Creating an attorney\<close>

lemma POST_validated:
  assumes "json_body req = Inr b" "truthy (post_name b)" "truthy (post_email b)"
    and "post_hasLogin b = Some True \<longrightarrow> truthy (post_password b)"
    and "fault e FindUser = None"
    and "user_findUnique_email d (ToString (post_email b)) = None"
  shows "POST e req d =
     (case transaction e
             (POST_transaction e b (ToString (post_name b)) (ToString (post_email b))) d of
        (Inl err, d') \<Rightarrow> (POST_catch err, d')
      | (Inr attorney, d') \<Rightarrow> (NextResponse_json attorney 200, d'))"
  using assms by (auto simp: POST_def)

text \<open>
  C7 (as amended). When the transaction that creates the attorney throws, nothing is
  stored and the answer depends on what was thrown: a known request error with code
  \<open>P2002\<close> gives 400 with a fixed message about the email, any other known request error
  gives 400 with \<open>Database error:\<close> followed by the error's own message, any other
  \<open>Error\<close> gives 500 with the error's own message, and a thrown value that is not an
  \<open>Error\<close> gives 500 with a fixed message.
\<close>

theorem POST_error_translation:
  assumes "json_body req = Inr b" "truthy (post_name b)" "truthy (post_email b)"
    and "post_hasLogin b = Some True \<longrightarrow> truthy (post_password b)"
    and "fault e FindUser = None"
    and "user_findUnique_email d (ToString (post_email b)) = None"
    and "transaction e
           (POST_transaction e b (ToString (post_name b)) (ToString (post_email b))) d
         = (Inl err, d')"
  shows "POST e req d = (POST_catch err, d)
       \<and> POST_catch err =
           (case err of
              PrismaClientKnownRequestError code message \<Rightarrow>
                if code = ''P2002'' then
                  \<lparr>status = 400,
                   body = Message ''A unique constraint violation occurred. The email may already be registered.''\<rparr>
                else \<lparr>status = 400, body = Message (''Database error: '' @ message)\<rparr>
            | Error message \<Rightarrow> \<lparr>status = 500, body = Message message\<rparr>
            | NonError \<Rightarrow> \<lparr>status = 500, body = Message ''Error creating attorney''\<rparr>)"
proof -
  have "d' = d"
    using assms(7) by (rule transaction_Inl)
  then have "POST e req d = (POST_catch err, d)"
    using assms(7) by (simp add: POST_validated [OF assms(1-6)])
  moreover have "POST_catch err =
           (case err of
              PrismaClientKnownRequestError code message \<Rightarrow>
                if code = ''P2002'' then
                  \<lparr>status = 400,
                   body = Message ''A unique constraint violation occurred. The email may already be registered.''\<rparr>
                else \<lparr>status = 400, body = Message (''Database error: '' @ message)\<rparr>
            | Error message \<Rightarrow> \<lparr>status = 500, body = Message message\<rparr>
            | NonError \<Rightarrow> \<lparr>status = 500, body = Message ''Error creating attorney''\<rparr>)"
    by (cases err) (simp_all add: POST_catch_def NextResponse_json_def)
  ultimately show ?thesis by simp
qed

lemma user_create_refused:
  "user_create e email name role password d = Inl (Error ''Argument createdAt is missing'')"
proof -
  have "create_input_error schema_User [''email'', ''name'', ''role'', ''password'']
      = Some (Error ''Argument createdAt is missing'')"
    by code_simp
  then show ?thesis
    by (simp add: user_create_def)
qed

lemma POST_transaction_refused:
  "POST_transaction e b name email d = Inl (Error ''Argument createdAt is missing'')"
  by (simp add: POST_transaction_def user_create_refused)

lemma attorney_create_refused:
  "\<exists>err. attorney_create e attorneyData d = Inl err"
proof -
  have firm: "''firm'' \<notin> set (map fst schema_Attorney)"
    by code_simp
  have "''firm'' \<in> set (attorneyData_keys attorneyData)"
    by (simp add: attorneyData_keys_def)
  then have "find (\<lambda>k. k \<notin> set (map fst schema_Attorney)) (attorneyData_keys attorneyData) \<noteq> None"
    using firm by (auto simp: find_None_iff)
  then show ?thesis
    by (auto simp: attorney_create_def create_input_error_def)
qed

text \<open>
  C8. A payload with a name and an email, no \<open>hasLogin\<close> flag and an email that no user
  has, sent while the store works, should add a user and an attorney and be answered
  with the attorney. The first call of the transaction, \<open>tx.user.create\<close>, gives
  \<open>email\<close>, \<open>name\<close>, \<open>role\<close> and \<open>password\<close>, and \<open>model User\<close> of \<open>schema.prisma\<close> also
  requires \<open>createdAt\<close> and \<open>updatedAt\<close>, which have no default: the call throws, the
  transaction stores nothing and the answer is 500. No user has the email afterwards.
\<close>

theorem POST_create_refused:
  assumes "json_body req = Inr b"
    and "post_name b = Some name" "name \<noteq> []"
    and "post_email b = Some email" "email \<noteq> []"
    and "post_hasLogin b = None"
    and "user_findUnique_email d email = None"
    and "fault e FindUser = None" "fault e Transaction = None"
  shows "status (fst (POST e req d)) = 500 \<and> snd (POST e req d) = d
       \<and> user_findUnique_email (snd (POST e req d)) email = None"
proof -
  have "POST e req d = (POST_catch (Error ''Argument createdAt is missing''), d)"
    using assms
    by (simp add: POST_def truthy_def ToString_def transaction_def POST_transaction_refused)
  then show ?thesis
    using assms(7) by (simp add: POST_catch_def NextResponse_json_def)
qed

section \<open>Creating a task\<close>


section \<open>Evaluation on the example data\<close>

lemma example_cookies:
  "cookie_token (cookie (example_request p)) = None"
  "cookie_token (Some ''theme=dark; token=stf'') = Some ''stf''"
  "cookie_token (Some ''token=own'') = Some ''own''"
  "cookie_token (Some ''token=adm'') = Some ''adm''"
  by (simp add: example_request_def cookie_token_def, code_simp, code_simp, code_simp)

lemma example_bearer:
  "element (split '' '' ''Bearer stf'') 1 = Some ''stf''"
  "element (split '' '' ''Bearer stf'') (Suc 0) = Some ''stf''"
  by code_simp+

lemma example_tokens:
  "jwtVerify example_env ''stf'' = Inr \<lparr>jwt_role = Some ''STAFF'', jwt_userId = Some ''u9''\<rparr>"
  "jwtVerify example_env ''own'' = Inr \<lparr>jwt_role = Some ''ATTORNEY'', jwt_userId = Some ''u1''\<rparr>"
  "jwtVerify example_env ''adm'' = Inr \<lparr>jwt_role = Some ''admin'', jwt_userId = Some ''u0''\<rparr>"
  by (simp_all add: example_env_def)

lemma example_roles:
  "toUpperCase ''STAFF'' = ''STAFF''" "toUpperCase ''ATTORNEY'' = ''ATTORNEY''"
  "toUpperCase ''admin'' = ''ADMIN''"
  by code_simp+

lemma example_find:
  "attorney_findUnique example_db ''a1'' = Some example_attorney"
  by (simp add: attorney_findUnique_def example_db_def example_attorney_def)

lemma example_owner: "a_userId example_attorney = ''u1''"
  by (simp add: example_attorney_def)

lemma example_faults: "fault example_env c = None"
  by (simp add: example_env_def)

lemma example_delete:
  "transaction example_env (DELETE_transaction ''a1'' example_attorney) example_db =
     (Inr (), \<lparr>users = [], attorneys = [], caseManagers = [], tasks = []\<rparr>)"
  by (simp add: transaction_def example_faults DELETE_transaction_def attorney_delete_def
      user_delete_def caseManager_deleteMany_def attorney_findUnique_def user_findUnique_id_def
      example_db_def example_attorney_def example_user_def example_caseManager_def)

theorem attorney_mutation_authorization_witness:
  "status (fst (DELETE example_env ((example_request ())\<lparr>query_id := None\<rparr>) example_db)) = 400
   \<and> status (fst (PUT example_env
        ((example_request example_update)\<lparr>query_id := None\<rparr>) example_db)) = 400
   \<and> status (fst (DELETE example_env (example_request ()) example_db)) = 401
   \<and> status (fst (DELETE example_env
        ((example_request ())\<lparr>cookie := Some ''theme=dark; token=stf''\<rparr>) example_db)) = 403
   \<and> status (fst (DELETE example_env
        ((example_request ())\<lparr>cookie := Some ''token=own''\<rparr>) example_db)) = 200
   \<and> status (fst (DELETE example_env
        ((example_request ())\<lparr>cookie := Some ''token=adm''\<rparr>) example_db)) = 200
   \<and> status (fst (PUT example_env (example_request example_update) example_db)) = 401
   \<and> status (fst (PUT example_env
        ((example_request example_update)\<lparr>authorization := Some ''Bearer stf''\<rparr>) example_db)) = 401"
proof -
  have 0: "status (fst (DELETE example_env
        ((example_request ())\<lparr>query_id := None\<rparr>) example_db)) = 400"
    and 7: "status (fst (PUT example_env
        ((example_request example_update)\<lparr>query_id := None\<rparr>) example_db)) = 400"
    using attorney_mutation_authorization
      [where reqD = "(example_request ())\<lparr>query_id := None\<rparr>"
        and reqP = "(example_request example_update)\<lparr>query_id := None\<rparr>"
        and e = example_env and d = example_db]
    by (simp_all add: truthy_def)
  have 1: "status (fst (DELETE example_env (example_request ()) example_db)) = 401"
    and 5: "status (fst (PUT example_env (example_request example_update) example_db)) = 401"
    using attorney_mutation_authorization
      [where reqD = "example_request ()" and reqP = "example_request example_update"
        and e = example_env and d = example_db]
    by (simp_all add: example_cookies) (simp_all add: example_request_def truthy_def)
  have 2: "status (fst (DELETE example_env
        ((example_request ())\<lparr>cookie := Some ''theme=dark; token=stf''\<rparr>) example_db)) = 403"
    and 6: "status (fst (PUT example_env
        ((example_request example_update)\<lparr>authorization := Some ''Bearer stf''\<rparr>) example_db)) = 401"
    using attorney_mutation_authorization
      [where reqD = "(example_request ())\<lparr>cookie := Some ''theme=dark; token=stf''\<rparr>"
        and reqP = "(example_request example_update)\<lparr>authorization := Some ''Bearer stf''\<rparr>"
        and e = example_env and d = example_db
        and payload = "\<lparr>jwt_role = Some ''STAFF'', jwt_userId = Some ''u9''\<rparr>"
        and attorney = example_attorney]
    by (simp_all add: example_cookies example_bearer example_tokens example_roles example_find
        example_faults example_request_def truthy_def ToString_def example_attorney_def)
  have 3: "status (fst (DELETE example_env
        ((example_request ())\<lparr>cookie := Some ''token=own''\<rparr>) example_db)) = 200"
    using attorney_mutation_authorization
      [where reqD = "(example_request ())\<lparr>cookie := Some ''token=own''\<rparr>"
        and reqP = "example_request example_update"
        and e = example_env and d = example_db
        and payload = "\<lparr>jwt_role = Some ''ATTORNEY'', jwt_userId = Some ''u1''\<rparr>"
        and attorney = example_attorney]
    by (simp add: example_cookies example_tokens example_roles example_find example_delete
        example_faults example_request_def truthy_def ToString_def example_owner)
  have 4: "status (fst (DELETE example_env
        ((example_request ())\<lparr>cookie := Some ''token=adm''\<rparr>) example_db)) = 200"
    using attorney_mutation_authorization
      [where reqD = "(example_request ())\<lparr>cookie := Some ''token=adm''\<rparr>"
        and reqP = "example_request example_update"
        and e = example_env and d = example_db
        and payload = "\<lparr>jwt_role = Some ''admin'', jwt_userId = Some ''u0''\<rparr>"
        and attorney = example_attorney]
    by (simp add: example_cookies example_tokens example_roles example_find example_delete
        example_faults example_request_def truthy_def ToString_def)
  show ?thesis
    using 0 1 2 3 4 5 6 7 by simp
qed

text \<open>
  \<open>PUT\<close> does not answer 403 to a valid credential that is neither an administrator's nor
  the owner's, and it does not let the owner through: both are answered 401.
\<close>

theorem PUT_forbidden_counterexample:
  "jwtVerify example_env ''stf'' = Inr \<lparr>jwt_role = Some ''STAFF'', jwt_userId = Some ''u9''\<rparr>
   \<and> a_userId example_attorney = ''u1''
   \<and> PUT example_env
        ((example_request example_update)\<lparr>authorization := Some ''Bearer stf''\<rparr>) example_db
      = (\<lparr>status = 401, body = Message ''Unauthorized''\<rparr>, example_db)
   \<and> jwtVerify example_env ''own'' = Inr \<lparr>jwt_role = Some ''ATTORNEY'', jwt_userId = Some ''u1''\<rparr>
   \<and> PUT example_env
        ((example_request example_update)\<lparr>authorization := Some ''Bearer own''\<rparr>) example_db
      = (\<lparr>status = 401, body = Message ''Unauthorized''\<rparr>, example_db)"
  by (simp add: PUT_unauthorized example_request_def truthy_def NextResponse_json_def
      example_tokens example_attorney_def)

lemma example_references: "references_ok example_db"
  by (simp add: references_ok_def example_db_def example_attorney_def example_caseManager_def)

lemma example_DELETE_admin:
  "DELETE example_env ((example_request ())\<lparr>cookie := Some ''token=adm''\<rparr>) example_db =
     (\<lparr>status = 200, body = Message ''Attorney deleted successfully''\<rparr>,
      \<lparr>users = [], attorneys = [], caseManagers = [], tasks = []\<rparr>)"
  using DELETE_checked
    [where req = "(example_request ())\<lparr>cookie := Some ''token=adm''\<rparr>" and e = example_env
      and d = example_db and attorney = example_attorney
      and payload = "\<lparr>jwt_role = Some ''admin'', jwt_userId = Some ''u0''\<rparr>"]
  by (simp add: example_cookies example_tokens example_roles example_find example_delete
      example_faults example_request_def truthy_def ToString_def NextResponse_json_def)

theorem DELETE_cascade_witness:
  "DELETE example_env ((example_request ())\<lparr>cookie := Some ''token=adm''\<rparr>) example_db =
     (\<lparr>status = 200, body = Message ''Attorney deleted successfully''\<rparr>,
      \<lparr>users = [], attorneys = [], caseManagers = [], tasks = []\<rparr>)
   \<and> attorney_findUnique example_db ''a1'' = Some example_attorney
   \<and> users example_db = [example_user] \<and> u_id example_user = a_userId example_attorney
   \<and> caseManagers example_db = [example_caseManager]
   \<and> cm_attorneyId example_caseManager = ''a1''
   \<and> references_ok example_db
   \<and> references_ok \<lparr>users = [], attorneys = [], caseManagers = [], tasks = []\<rparr>"
  using DELETE_cascade [OF example_DELETE_admin] example_references example_DELETE_admin
  by (simp add: example_find)
    (simp add: example_db_def example_user_def example_attorney_def example_caseManager_def)

lemma example_post_valid:
  "json_body (example_request example_post) = Inr example_post"
  "truthy (post_name example_post)" "truthy (post_email example_post)"
  "post_hasLogin example_post = None"
  "post_name example_post = Some ''Jane Doe''" "post_email example_post = Some ''jane@x.com''"
  "user_findUnique_email example_db ''jane@x.com'' = None"
  by (simp_all add: example_request_def example_post_def truthy_def user_findUnique_email_def
      example_db_def example_user_def)

lemma storage_failing_faults:
  "fault (storage_failing err) FindUser = None"
  "fault (storage_failing err) Transaction = Some err"
  by (simp_all add: storage_failing_def example_env_def)

lemma storage_failing_transaction: "transaction (storage_failing err) f d = (Inl err, d)"
  by (simp add: transaction_def storage_failing_faults)

theorem POST_error_translation_witness:
  "POST (storage_failing (PrismaClientKnownRequestError ''P2002''
           ''Unique constraint failed on the fields: (email)''))
     (example_request example_post) example_db =
   (\<lparr>status = 400,
     body = Message ''A unique constraint violation occurred. The email may already be registered.''\<rparr>,
    example_db)"
  using POST_error_translation
    [where e = "storage_failing (PrismaClientKnownRequestError ''P2002''
           ''Unique constraint failed on the fields: (email)'')"
      and req = "example_request example_post" and b = example_post and d = example_db
      and d' = example_db
      and err = "PrismaClientKnownRequestError ''P2002''
           ''Unique constraint failed on the fields: (email)''"]
  by (simp add: example_post_valid storage_failing_faults storage_failing_transaction
      ToString_def truthy_def)

text \<open>
  An error that is not a uniqueness violation reaches the caller with its own message:
  a lost connection as the message of a 500, a foreign key violation inside the message
  of a 400.
\<close>

theorem POST_error_detail_counterexample:
  "POST (storage_failing (Error ''connect ECONNREFUSED 10.0.0.5:27017''))
     (example_request example_post) example_db =
   (\<lparr>status = 500, body = Message ''connect ECONNREFUSED 10.0.0.5:27017''\<rparr>, example_db)
   \<and> POST (storage_failing (PrismaClientKnownRequestError ''P2003''
              ''Foreign key constraint failed on the field: Attorney_userId_fkey''))
        (example_request example_post) example_db =
      (\<lparr>status = 400,
        body = Message ''Database error: Foreign key constraint failed on the field: Attorney_userId_fkey''\<rparr>,
       example_db)"
  by (simp add: POST_def example_post_valid storage_failing_faults storage_failing_transaction
      ToString_def POST_catch_def NextResponse_json_def truthy_def)

theorem POST_create_refused_witness:
  "status (fst (POST example_env (example_request example_post) example_db)) = 500
   \<and> snd (POST example_env (example_request example_post) example_db) = example_db
   \<and> post_name example_post = Some ''Jane Doe'' \<and> post_email example_post = Some ''jane@x.com''
   \<and> post_hasLogin example_post = None
   \<and> user_findUnique_email example_db ''jane@x.com'' = None"
  using POST_create_refused
    [where e = example_env and req = "example_request example_post" and b = example_post
      and d = example_db and name = "''Jane Doe''" and email = "''jane@x.com''"]
  by (simp add: example_post_valid example_faults)



end
